theory Spec2Isabelle
  imports Main
begin

section \<open>The SPUD subsystem: data\<close>

text \<open>
  A shallow embedding of \<^verbatim>\<open>Source/SPUD/Private/SpudSubsystem.cpp\<close>.

  The subsystem object is a record of its member variables. Every member function is a
  function from the subsystem before the call to the subsystem after it. What the
  subsystem asks of its collaborators (the engine, the file manager, the active
  \<^verbatim>\<open>USpudState\<close>) is an input, gathered in the record \<open>Host\<close>; what it tells them
  to do is appended, in program order, to the field \<open>Calls\<close>. The collaborators are
  otherwise opaque, so every theorem holds whatever they answer.

  The build modelled is the one with \<^verbatim>\<open>USE_UE_SAVE_SYSTEM\<close> equal to 0 (the file
  manager branch of each \<^verbatim>\<open>#if\<close>). Of the log lines only those of verbosity
  \<^verbatim>\<open>Error\<close> are kept. A pointer the code tests is an \<open>option\<close> or comes with a
  validity flag. The world, a level or an actor that the code dereferences without a test
  is a value: such a call is considered only where they exist. The game instance, the
  viewport clients and the player controller of the screenshot path, which the code also
  dereferences without a test, have a flag each, and their absence ends the process.
\<close>

datatype ESpudSystemState = Disabled | RunningIdle | LoadingGame | SavingGame | NewGameOnNextLevel

type_synonym FString = string
type_synonym FName = string
type_synonym FText = string
type_synonym UObject = nat
type_synonym USpudCustomSaveInfo = nat

text \<open>An actor, with the two answers of \<^verbatim>\<open>SpudPropertyUtil\<close> the subsystem asks for.\<close>

record AActor =
  ActorId :: nat
  IsPersistentObject :: bool
  IsRuntimeActor :: bool

text \<open>A level; \<open>LevelName\<close> is what \<^verbatim>\<open>USpudState::GetLevelName(Level)\<close> returns.\<close>

record ULevel =
  LevelName :: FString
  Actors :: "AActor list"
  bIsBeingRemoved :: bool

record UWorld =
  Levels :: "ULevel list"
  CurrentLevelName :: FString
  IsNetModeClient :: bool

datatype FArchive = FileReader FString | FileWriter FString

datatype broadcast =
    PreTravelToNewMap FString
  | PostTravelToNewMap
  | PreLevelRestore FString
  | PostLevelRestore FString bool
  | PreLevelStore FString
  | PostLevelStore FString bool
  | PreSaveGame FString
  | PostSaveGame FString bool
  | PreLoadGame FString
  | PostLoadGame FString bool
  | PreLoadStreamingLevel FName
  | PostLoadStreamingLevel FName
  | PreUnloadStreamingLevel FName
  | PostUnloadStreamingLevel FName

text \<open>
  The calls the subsystem makes on its collaborators. The constructors named
  \<open>State_\<close> are member functions of the active \<^verbatim>\<open>USpudState\<close>. \<open>Abort\<close> is not a
  call: it marks the point where the process ends on a null pointer or a failed
  \<^verbatim>\<open>check\<close>.
\<close>

datatype call =
    Broadcast broadcast
  | LogError string
  | State_ResetState
  | State_StoreWorldGlobals
  | State_StoreGlobalObject UObject "FString option"
  | State_RestoreGlobalObject UObject "FString option"
  | State_StoreLevel FString bool bool
  | State_ReleaseLevelData FString bool
  | State_RestoreLoadedWorld
  | State_RestoreLevel FString
  | State_RestoreActor nat
  | State_PreLoadLevelData FString
  | State_StoreLevelActorDestroyed nat
  | State_SetTitle FText
  | State_SetTimestamp
  | State_SetCustomSaveInfo "USpudCustomSaveInfo option"
  | State_SetScreenshot "nat list"
  | State_SaveToArchive FArchive
  | State_LoadFromArchive FArchive bool
  | CreateFileWriter FString
  | CreateFileReader FString
  | Archive_Close FArchive
  | RequestScreenshot bool
  | OpenLevel FName bool FString
  | SetShouldBeVisible FName bool
  | Abort string

text \<open>What \<^verbatim>\<open>SaveNeedsUpgrading\<close> reads of a save loaded from a file: the answer of
  \<^verbatim>\<open>IsUserDataModelOutdated\<close> for the global data and for each entry of the level
  data map.\<close>

record FSpudSaveData =
  GlobalDataOutdated :: bool
  LevelDataOutdated :: "bool list"

text \<open>
  What the collaborators answer during one call of a member function.
  \<^item> \<open>bEnableSPUD\<close> is the console variable; \<open>HasGameInstance\<close>,
    \<open>HasGameInstanceWorld\<close> and \<open>HasAuthGameMode\<close> are the three pointers
    \<^verbatim>\<open>ServerCheck\<close> tests.
  \<^item> \<open>HasGameViewportClient\<close> tells whether
    \<^verbatim>\<open>GetGameInstance()->GetGameViewportClient()\<close> is there; \<open>HasPlayerController\<close>,
    \<open>HasLocalPlayer\<close> and \<open>HasLocalPlayerViewportClient\<close> tell the same of
    \<^verbatim>\<open>UGameplayStatics::GetPlayerController(GetWorld(), 0)\<close>, of its
    \<^verbatim>\<open>GetLocalPlayer()\<close> and of that player's \<^verbatim>\<open>ViewportClient\<close>.
  \<^item> \<open>World\<close> is what \<^verbatim>\<open>GetWorld()\<close> points to and \<open>WorldIsValid\<close> the answer of
    \<^verbatim>\<open>IsValid(World)\<close>.
  \<^item> \<open>ObjectAlive\<close> tells whether a weak pointer to the object is still valid.
  \<^item> \<open>StateCanRestoreLevel\<close>, \<open>StateCanRestoreWorld\<close> and
    \<open>StateGetPersistentLevel\<close> are queries of the active \<^verbatim>\<open>USpudState\<close>.
  \<^item> \<open>FileWriterOpens\<close> and \<open>FileReaderOpens\<close> tell whether the file manager
    returns an archive, \<open>ArchiveHasError\<close> whether
    \<^verbatim>\<open>Archive->IsError() || Archive->IsCriticalError()\<close> holds after the close.
  \<^item> \<open>GetStreamingLevel\<close> is \<^verbatim>\<open>UGameplayStatics::GetStreamingLevel\<close> followed by
    \<^verbatim>\<open>GetLoadedLevel\<close>: \<open>None\<close> for no streaming level, \<open>Some None\<close> for one
    whose level is null.
  \<^item> \<open>CompressThumbnail\<close> is the crop, scale and PNG compression of a screenshot.
  \<^item> \<open>SaveGameFiles\<close> is what \<^verbatim>\<open>ListSaveGameFiles\<close> finds and \<open>LoadedSaveData\<close>
    what \<^verbatim>\<open>LoadFromArchive\<close> reads from the file of a given name.
\<close>

record Host =
  bEnableSPUD :: bool
  HasGameInstance :: bool
  HasGameInstanceWorld :: bool
  HasAuthGameMode :: bool
  HasGameViewportClient :: bool
  HasPlayerController :: bool
  HasLocalPlayer :: bool
  HasLocalPlayerViewportClient :: bool
  World :: UWorld
  WorldIsValid :: bool
  ObjectAlive :: "UObject \<Rightarrow> bool"
  StateCanRestoreLevel :: "ULevel \<Rightarrow> bool"
  StateCanRestoreWorld :: "UWorld \<Rightarrow> bool"
  StateGetPersistentLevel :: FString
  ProjectSavedDir :: FString
  FileWriterOpens :: "FString \<Rightarrow> bool"
  FileReaderOpens :: "FString \<Rightarrow> bool"
  ArchiveHasError :: "FArchive \<Rightarrow> bool"
  GetStreamingLevel :: "FName \<Rightarrow> ULevel option option"
  CompressThumbnail :: "int \<Rightarrow> int \<Rightarrow> nat list \<Rightarrow> nat list"
  SaveGameFiles :: "FString list"
  LoadedSaveData :: "FString \<Rightarrow> FSpudSaveData"

text \<open>
  The member variables of \<^verbatim>\<open>USpudSubsystem\<close>. A weak object pointer is the object it
  was made from (\<open>None\<close> for a null pointer). \<open>OnScreenshotHandle\<close> holds while the
  screenshot delegate is bound. \<open>Subscribed\<close> is the set of actors whose
  \<^verbatim>\<open>OnDestroyed\<close> delegate is bound to \<^verbatim>\<open>OnActorDestroyed\<close>. \<open>GameThreadTasks\<close> are
  the lambdas \<^verbatim>\<open>HandleLevelLoaded\<close> has queued with \<^verbatim>\<open>AsyncTask\<close> and the game thread
  has not run yet, each given by the level name it captured.
\<close>

record USpudSubsystem =
  CurrentState :: ESpudSystemState
  bIsRestoringState :: bool
  bIsTearingDown :: bool
  bSaveLevelStateWhileTraveling :: bool
  SlotNameInProgress :: FString
  TitleInProgress :: FText
  ExtraInfoInProgress :: "USpudCustomSaveInfo option"
  OnScreenshotHandle :: bool
  GlobalObjects :: "UObject option list"
  NamedGlobalObjects :: "(FString \<times> UObject option) list"
  LevelStreamingRestoreStates :: "(FName \<times> bool) list"
  Subscribed :: "nat set"
  GameThreadTasks :: "FName list"
  Calls :: "call list"

section \<open>Engine containers and weak pointers\<close>

definition emit :: "call \<Rightarrow> USpudSubsystem \<Rightarrow> USpudSubsystem" where
  "emit c s = s\<lparr>Calls := Calls s @ [c]\<rparr>"

definition NewCalls :: "USpudSubsystem \<Rightarrow> USpudSubsystem \<Rightarrow> call list" where
  "NewCalls s s' = drop (length (Calls s)) (Calls s')"

text \<open>\<^verbatim>\<open>TWeakObjectPtr\<close>: valid while the object lives; two pointers are equal when
  they were made from the same object or when neither is valid.\<close>

definition Weak_IsValid :: "Host \<Rightarrow> UObject option \<Rightarrow> bool" where
  "Weak_IsValid h p = (case p of None \<Rightarrow> False | Some obj \<Rightarrow> ObjectAlive h obj)"

definition Weak_Get :: "Host \<Rightarrow> UObject option \<Rightarrow> UObject option" where
  "Weak_Get h p = (if Weak_IsValid h p then p else None)"

definition Weak_Eq :: "Host \<Rightarrow> UObject option \<Rightarrow> UObject option \<Rightarrow> bool" where
  "Weak_Eq h a b = (a = b \<or> (\<not> Weak_IsValid h a \<and> \<not> Weak_IsValid h b))"

text \<open>\<^verbatim>\<open>TArray::AddUnique\<close>, \<^verbatim>\<open>TArray::Remove\<close> (every equal element) and
  \<^verbatim>\<open>TMap::Add\<close> (an existing key gets the new value).\<close>

definition TArray_AddUnique :: "Host \<Rightarrow> UObject option \<Rightarrow> UObject option list \<Rightarrow> UObject option list" where
  "TArray_AddUnique h p xs = (if list_ex (Weak_Eq h p) xs then xs else xs @ [p])"

definition TArray_Remove :: "Host \<Rightarrow> UObject option \<Rightarrow> UObject option list \<Rightarrow> UObject option list" where
  "TArray_Remove h p xs = filter (\<lambda>w. \<not> Weak_Eq h w p) xs"

primrec TMap_Add :: "'k \<Rightarrow> 'v \<Rightarrow> ('k \<times> 'v) list \<Rightarrow> ('k \<times> 'v) list" where
  "TMap_Add k v [] = [(k, v)]"
| "TMap_Add k v (e # es) = (if fst e = k then (k, v) # es else e # TMap_Add k v es)"

section \<open>The member functions\<close>

definition ServerCheck :: "Host \<Rightarrow> bool \<Rightarrow> bool" where
  "ServerCheck h LogWarning =
     (if \<not> bEnableSPUD h then False
      else if \<not> HasGameInstance h then True
      else if \<not> HasGameInstanceWorld h then True
      else HasAuthGameMode h)"

definition GetSaveGameDirectory :: "Host \<Rightarrow> FString" where
  "GetSaveGameDirectory h = ProjectSavedDir h @ ''SaveGames/''"

definition GetSaveGameFilePath :: "Host \<Rightarrow> FString \<Rightarrow> FString" where
  "GetSaveGameFilePath h SlotName = GetSaveGameDirectory h @ SlotName @ ''.sav''"

subsection \<open>Destroyed-actor tracking\<close>

definition SubscribeLevelObjectEvents :: "ULevel option \<Rightarrow> USpudSubsystem \<Rightarrow> USpudSubsystem" where
  "SubscribeLevelObjectEvents Level s =
     (case Level of
        None \<Rightarrow> s
      | Some L \<Rightarrow>
          fold (\<lambda>Actor s.
                  if \<not> IsPersistentObject Actor then s
                  else if \<not> IsRuntimeActor Actor
                    then s\<lparr>Subscribed := insert (ActorId Actor) (Subscribed s)\<rparr>
                    else s)
               (Actors L) s)"

definition UnsubscribeLevelObjectEvents :: "ULevel option \<Rightarrow> USpudSubsystem \<Rightarrow> USpudSubsystem" where
  "UnsubscribeLevelObjectEvents Level s =
     (case Level of
        None \<Rightarrow> s
      | Some L \<Rightarrow>
          fold (\<lambda>Actor s.
                  if \<not> IsPersistentObject Actor then s
                  else if \<not> IsRuntimeActor Actor
                    then s\<lparr>Subscribed := Subscribed s - {ActorId Actor}\<rparr>
                    else s)
               (Actors L) s)"

definition SubscribeAllLevelObjectEvents :: "Host \<Rightarrow> USpudSubsystem \<Rightarrow> USpudSubsystem" where
  "SubscribeAllLevelObjectEvents h s =
     (if WorldIsValid h
      then fold (\<lambda>Level. SubscribeLevelObjectEvents (Some Level)) (Levels (World h)) s
      else s)"

definition UnsubscribeAllLevelObjectEvents :: "Host \<Rightarrow> USpudSubsystem \<Rightarrow> USpudSubsystem" where
  "UnsubscribeAllLevelObjectEvents h s =
     (if WorldIsValid h
      then fold (\<lambda>Level. UnsubscribeLevelObjectEvents (Some Level)) (Levels (World h)) s
      else s)"

text \<open>\<open>GetLevel\<close> is the answer of \<^verbatim>\<open>Actor->GetLevel()\<close>.\<close>

definition OnActorDestroyed :: "AActor \<Rightarrow> ULevel option \<Rightarrow> USpudSubsystem \<Rightarrow> USpudSubsystem" where
  "OnActorDestroyed Actor GetLevel s =
     (if CurrentState s = RunningIdle
      then (case GetLevel of
              None \<Rightarrow> s
            | Some Level \<Rightarrow>
                if \<not> bIsBeingRemoved Level
                then emit (State_StoreLevelActorDestroyed (ActorId Actor)) s
                else s)
      else s)"

definition MarkActorDestroyed :: "Host \<Rightarrow> AActor \<Rightarrow> ULevel option \<Rightarrow> USpudSubsystem \<Rightarrow> USpudSubsystem" where
  "MarkActorDestroyed h Actor GetLevel s =
     (if \<not> ServerCheck h False then s else OnActorDestroyed Actor GetLevel s)"

subsection \<open>Storing levels\<close>

definition StoreLevel :: "ULevel \<Rightarrow> bool \<Rightarrow> bool \<Rightarrow> USpudSubsystem \<Rightarrow> USpudSubsystem" where
  "StoreLevel Level bRelease bBlocking s =
     (let s = emit (Broadcast (PreLevelStore (LevelName Level))) s;
          s = emit (State_StoreLevel (LevelName Level) bRelease bBlocking) s
      in emit (Broadcast (PostLevelStore (LevelName Level) True)) s)"

definition StoreWorld :: "UWorld \<Rightarrow> bool \<Rightarrow> bool \<Rightarrow> USpudSubsystem \<Rightarrow> USpudSubsystem" where
  "StoreWorld W bReleaseLevels bBlocking s =
     fold (\<lambda>Level. StoreLevel Level bReleaseLevels bBlocking) (Levels W) s"

definition HandleLevelUnloaded :: "ULevel \<Rightarrow> USpudSubsystem \<Rightarrow> USpudSubsystem" where
  "HandleLevelUnloaded Level s =
     (let s = UnsubscribeLevelObjectEvents (Some Level) s
      in if CurrentState s \<noteq> LoadingGame \<and> \<not> bIsTearingDown s
         then StoreLevel Level True False s
         else s)"

definition NotifyLevelUnloadedExternally :: "ULevel \<Rightarrow> USpudSubsystem \<Rightarrow> USpudSubsystem" where
  "NotifyLevelUnloadedExternally Level s = HandleLevelUnloaded Level s"

definition OnLevelBeginMakingInvisible :: "Host \<Rightarrow> UWorld \<Rightarrow> ULevel \<Rightarrow> USpudSubsystem \<Rightarrow> USpudSubsystem" where
  "OnLevelBeginMakingInvisible h W LoadedLevel s =
     (if \<not> ServerCheck h True \<or> IsNetModeClient W then s
      else
        let s = emit (Broadcast (PreUnloadStreamingLevel (LevelName LoadedLevel))) s;
            s = HandleLevelUnloaded LoadedLevel s
        in emit (Broadcast (PostUnloadStreamingLevel (LevelName LoadedLevel))) s)"

definition OnPreLoadMap :: "Host \<Rightarrow> FString \<Rightarrow> USpudSubsystem \<Rightarrow> USpudSubsystem" where
  "OnPreLoadMap h MapName s =
     (if \<not> ServerCheck h False then s
      else
        let s = emit (Broadcast (PreTravelToNewMap MapName)) s
        in if CurrentState s = RunningIdle
           then
             let s = UnsubscribeAllLevelObjectEvents h s
             in if WorldIsValid h
                then if bSaveLevelStateWhileTraveling s
                     then StoreWorld (World h) True True s
                     else fold (\<lambda>Level. emit (State_ReleaseLevelData (LevelName Level) True))
                            (Levels (World h)) s
                else s
           else s)"

definition OnSeamlessTravelStart :: "Host \<Rightarrow> UWorld option \<Rightarrow> FString \<Rightarrow> USpudSubsystem \<Rightarrow> USpudSubsystem" where
  "OnSeamlessTravelStart h W MapName s =
     (if \<not> ServerCheck h False then s
      else (case W of None \<Rightarrow> s | Some _ \<Rightarrow> OnPreLoadMap h MapName s))"

subsection \<open>Saving\<close>

definition SaveComplete :: "FString \<Rightarrow> bool \<Rightarrow> USpudSubsystem \<Rightarrow> USpudSubsystem" where
  "SaveComplete SlotName bSuccess s =
     (let s = s\<lparr>CurrentState := RunningIdle\<rparr>;
          s = emit (Broadcast (PostSaveGame SlotName bSuccess)) s
      in s\<lparr>SlotNameInProgress := '''', TitleInProgress := '''', ExtraInfoInProgress := None\<rparr>)"

definition FinishSaveGame ::
  "Host \<Rightarrow> FString \<Rightarrow> FText \<Rightarrow> USpudCustomSaveInfo option \<Rightarrow> nat list option \<Rightarrow>
   USpudSubsystem \<Rightarrow> USpudSubsystem" where
  "FinishSaveGame h SlotName Title ExtraInfo ScreenshotData s =
     (let s = emit State_StoreWorldGlobals s;
          s = fold (\<lambda>Ptr s. case Weak_Get h Ptr of
                               Some obj \<Rightarrow> emit (State_StoreGlobalObject obj None) s
                             | None \<Rightarrow> s)
                (GlobalObjects s) s;
          s = fold (\<lambda>Pair s. case Weak_Get h (snd Pair) of
                                Some obj \<Rightarrow> emit (State_StoreGlobalObject obj (Some (fst Pair))) s
                              | None \<Rightarrow> s)
                (NamedGlobalObjects s) s;
          s = StoreWorld (World h) False True s;
          s = emit (State_SetTitle Title) s;
          s = emit State_SetTimestamp s;
          s = emit (State_SetCustomSaveInfo ExtraInfo) s;
          s = (case ScreenshotData of Some png \<Rightarrow> emit (State_SetScreenshot png) s | None \<Rightarrow> s);
          path = GetSaveGameFilePath h SlotName;
          s = emit (CreateFileWriter path) s
      in if FileWriterOpens h path
         then
           let s = emit (State_SaveToArchive (FileWriter path)) s;
               s = emit (Archive_Close (FileWriter path)) s
           in if ArchiveHasError h (FileWriter path)
              then SaveComplete SlotName False
                     (emit (LogError (''Error while saving game to '' @ SlotName)) s)
              else SaveComplete SlotName True s
         else SaveComplete SlotName False
                (emit (LogError (''Error while creating save game for slot '' @ SlotName)) s))"

text \<open>
  In its screenshot branch \<^verbatim>\<open>SaveGame\<close> dereferences \<^verbatim>\<open>GetGameInstance()\<close> without a
  test and asserts the game viewport client with \<^verbatim>\<open>check\<close>; \<^verbatim>\<open>OnScreenshotCaptured\<close>
  dereferences the first player controller, its local player and that player's viewport
  client without a test. Where one of them is missing the process ends there: the call
  \<open>Abort\<close> is the last of the trace and the subsystem returned is the one at that moment.
\<close>

definition SaveGame ::
  "Host \<Rightarrow> FString \<Rightarrow> FText \<Rightarrow> bool \<Rightarrow> USpudCustomSaveInfo option \<Rightarrow>
   USpudSubsystem \<Rightarrow> USpudSubsystem" where
  "SaveGame h SlotName Title bTakeScreenshot ExtraInfo s =
     (if \<not> ServerCheck h True then SaveComplete SlotName False s
      else if SlotName = []
        then SaveComplete SlotName False
               (emit (LogError ''Cannot save a game with a blank slot name'') s)
      else if CurrentState s \<noteq> RunningIdle
        then SaveComplete SlotName False
               (emit (LogError ''TODO: Overlapping calls to save/load, resolve this'') s)
      else
        let s = s\<lparr>CurrentState := SavingGame\<rparr>;
            s = emit (Broadcast (PreSaveGame SlotName)) s
        in if bTakeScreenshot
           then
             let s = s\<lparr>SlotNameInProgress := SlotName, TitleInProgress := Title,
                        ExtraInfoInProgress := ExtraInfo\<rparr>
             in if \<not> HasGameInstance h
                then emit (Abort ''GetGameInstance() is null'') s
                else if \<not> HasGameViewportClient h
                then emit (Abort ''check(ViewportClient)'') s
                else
                  let s = s\<lparr>OnScreenshotHandle := True\<rparr>
                  in emit (RequestScreenshot False) s
           else FinishSaveGame h SlotName Title ExtraInfo None s)"

definition OnScreenshotCaptured ::
  "Host \<Rightarrow> int \<Rightarrow> int \<Rightarrow> nat list \<Rightarrow> USpudSubsystem \<Rightarrow> USpudSubsystem" where
  "OnScreenshotCaptured h Width Height Colours s =
     (if \<not> HasPlayerController h
      then emit (Abort ''GetPlayerController() is null'') s
      else if \<not> HasLocalPlayer h
      then emit (Abort ''GetLocalPlayer() is null'') s
      else if \<not> HasLocalPlayerViewportClient h
      then emit (Abort ''ViewportClient is null'') s
      else
        let s = s\<lparr>OnScreenshotHandle := False\<rparr>;
            PngData = CompressThumbnail h Width Height Colours
        in FinishSaveGame h (SlotNameInProgress s) (TitleInProgress s) (ExtraInfoInProgress s)
             (Some PngData) s)"

subsection \<open>Loading\<close>

text \<open>
  \<^verbatim>\<open>LoadComplete\<close> takes its slot name by reference and reads it only after it has
  cleared \<^verbatim>\<open>SlotNameInProgress\<close>. The parameter \<open>SlotName\<close> is therefore the way to
  read the reference: \<open>\<lambda>_. n\<close> for a string \<open>n\<close> of the caller's, and the selector
  \<open>SlotNameInProgress\<close> where \<^verbatim>\<open>OnPostLoadMap\<close> passes the member itself.
\<close>

definition LoadComplete ::
  "(USpudSubsystem \<Rightarrow> FString) \<Rightarrow> bool \<Rightarrow> USpudSubsystem \<Rightarrow> USpudSubsystem" where
  "LoadComplete SlotName bSuccess s =
     (let s = s\<lparr>CurrentState := RunningIdle, bIsRestoringState := False,
                SlotNameInProgress := ''''\<rparr>
      in emit (Broadcast (PostLoadGame (SlotName s) bSuccess)) s)"

definition LoadGame ::
  "Host \<Rightarrow> FString \<Rightarrow> bool \<Rightarrow> FString \<Rightarrow> USpudSubsystem \<Rightarrow> USpudSubsystem" where
  "LoadGame h SlotName bAutoTravelLevel TravelOptions s =
     (if \<not> ServerCheck h True then LoadComplete (\<lambda>_. SlotName) False s
      else if CurrentState s \<noteq> RunningIdle
        then LoadComplete (\<lambda>_. SlotName) False
               (emit (LogError ''TODO: Overlapping calls to save/load, resolve this'') s)
      else
        let s = s\<lparr>CurrentState := LoadingGame, bIsRestoringState := True\<rparr>;
            s = emit (Broadcast (PreLoadGame SlotName)) s;
            s = emit State_ResetState s;
            path = GetSaveGameFilePath h SlotName;
            s = emit (CreateFileReader path) s
        in if FileReaderOpens h path
           then
             let s = emit (State_LoadFromArchive (FileReader path) False) s;
                 s = emit (Archive_Close (FileReader path)) s
             in if ArchiveHasError h (FileReader path)
                then LoadComplete (\<lambda>_. SlotName) False
                       (emit (LogError (''Error while loading game from '' @ SlotName)) s)
                else
                  let s = fold (\<lambda>Ptr s. case Weak_Get h Ptr of
                                   Some obj \<Rightarrow> emit (State_RestoreGlobalObject obj None) s
                                 | None \<Rightarrow> s)
                            (GlobalObjects s) s;
                      s = fold (\<lambda>Pair s. case Weak_Get h (snd Pair) of
                                   Some obj \<Rightarrow>
                                     emit (State_RestoreGlobalObject obj (Some (fst Pair))) s
                                 | None \<Rightarrow> s)
                            (NamedGlobalObjects s) s;
                      s = s\<lparr>SlotNameInProgress := SlotName\<rparr>
                  in if bAutoTravelLevel
                     then emit (OpenLevel (StateGetPersistentLevel h) True TravelOptions) s
                     else s
           else LoadComplete (\<lambda>_. SlotName) False
                  (emit (LogError (''Error while opening save game for slot '' @ SlotName)) s))"

definition LoadActorData :: "Host \<Rightarrow> AActor \<Rightarrow> bool \<Rightarrow> USpudSubsystem \<Rightarrow> USpudSubsystem" where
  "LoadActorData h Actor bAsGameLoad s =
     (if \<not> ServerCheck h False then s
      else
        let PrevState = CurrentState s;
            s = (if bAsGameLoad then s\<lparr>CurrentState := LoadingGame\<rparr> else s);
            s = s\<lparr>bIsRestoringState := True\<rparr>;
            s = emit (State_RestoreActor (ActorId Actor)) s;
            s = s\<lparr>bIsRestoringState := False\<rparr>
        in s\<lparr>CurrentState := PrevState\<rparr>)"

definition ForceReset :: "USpudSubsystem \<Rightarrow> USpudSubsystem" where
  "ForceReset s = s\<lparr>CurrentState := RunningIdle, bIsRestoringState := False\<rparr>"

definition OnPostLoadMap :: "Host \<Rightarrow> UWorld option \<Rightarrow> USpudSubsystem \<Rightarrow> USpudSubsystem" where
  "OnPostLoadMap h W s =
     (if \<not> ServerCheck h False then s
      else
        let s =
          (case CurrentState s of
             NewGameOnNextLevel \<Rightarrow>
               (case W of
                  Some _ \<Rightarrow> (SubscribeAllLevelObjectEvents h s)\<lparr>CurrentState := RunningIdle\<rparr>
                | None \<Rightarrow> s)
           | RunningIdle \<Rightarrow> SubscribeAllLevelObjectEvents h s
           | LoadingGame \<Rightarrow>
               (case W of
                  Some Wd \<Rightarrow>
                    if StateCanRestoreWorld h Wd
                    then
                      let s = s\<lparr>bIsRestoringState := True\<rparr>;
                          s = emit (Broadcast (PreLevelRestore (CurrentLevelName Wd))) s;
                          s = emit State_RestoreLoadedWorld s;
                          s = emit (Broadcast (PostLevelRestore (CurrentLevelName Wd) True)) s;
                          s = s\<lparr>bIsRestoringState := False\<rparr>;
                          s = SubscribeAllLevelObjectEvents h s
                      in LoadComplete SlotNameInProgress True s
                    else
                      let s = SubscribeAllLevelObjectEvents h s
                      in LoadComplete SlotNameInProgress False s
                | None \<Rightarrow> s)
           | _ \<Rightarrow> s)
        in emit (Broadcast PostTravelToNewMap) s)"

subsection \<open>Streaming levels in\<close>

definition CanRestoreLevel :: "Host \<Rightarrow> ULevel \<Rightarrow> bool" where
  "CanRestoreLevel h Level = StateCanRestoreLevel h Level"

definition CanRestoreWorld :: "Host \<Rightarrow> UWorld \<Rightarrow> bool" where
  "CanRestoreWorld h W = StateCanRestoreWorld h W"

definition HandleLevelLoaded :: "FName \<Rightarrow> USpudSubsystem \<Rightarrow> USpudSubsystem" where
  "HandleLevelLoaded LevelName' s =
     (let s = emit (State_PreLoadLevelData LevelName') s
      in s\<lparr>GameThreadTasks := GameThreadTasks s @ [LevelName']\<rparr>)"

definition NotifyLevelLoadedExternally :: "FName \<Rightarrow> USpudSubsystem \<Rightarrow> USpudSubsystem" where
  "NotifyLevelLoadedExternally LevelName' s = HandleLevelLoaded LevelName' s"

definition PostLoadStreamLevelGameThread :: "Host \<Rightarrow> FName \<Rightarrow> USpudSubsystem \<Rightarrow> USpudSubsystem" where
  "PostLoadStreamLevelGameThread h LevelName' s =
     (let s = emit (Broadcast (PostLoadStreamingLevel LevelName')) s
      in case GetStreamingLevel h LevelName' of
           None \<Rightarrow> s
         | Some None \<Rightarrow> s
         | Some (Some Level) \<Rightarrow>
             let s = s\<lparr>bIsRestoringState := True\<rparr>;
                 s = emit (Broadcast (PreLevelRestore LevelName')) s;
                 s = emit (State_RestoreLevel (LevelName Level)) s;
                 s = emit (SetShouldBeVisible LevelName' True) s;
                 s = SubscribeLevelObjectEvents (Some Level) s;
                 s = emit (Broadcast (PostLevelRestore LevelName' True)) s
             in s\<lparr>bIsRestoringState := False\<rparr>)"

text \<open>The lambda of \<^verbatim>\<open>HandleLevelLoaded\<close>, run by the game thread: the oldest
  queued task, if there is one.\<close>

definition RunGameThreadTask :: "Host \<Rightarrow> USpudSubsystem \<Rightarrow> USpudSubsystem" where
  "RunGameThreadTask h s =
     (case GameThreadTasks s of
        [] \<Rightarrow> s
      | LevelName' # rest \<Rightarrow>
          let s = s\<lparr>GameThreadTasks := rest\<rparr>;
              s = PostLoadStreamLevelGameThread h LevelName' s;
              s = s\<lparr>LevelStreamingRestoreStates :=
                       TMap_Add LevelName' False (LevelStreamingRestoreStates s)\<rparr>
          in emit (Broadcast (PostLoadStreamingLevel LevelName')) s)"

definition OnLevelBeginMakingVisible :: "Host \<Rightarrow> UWorld \<Rightarrow> ULevel \<Rightarrow> USpudSubsystem \<Rightarrow> USpudSubsystem" where
  "OnLevelBeginMakingVisible h W LoadedLevel s =
     (if \<not> ServerCheck h True \<or> IsNetModeClient W then s
      else if \<not> CanRestoreLevel h LoadedLevel then s
      else
        let s = s\<lparr>LevelStreamingRestoreStates :=
                     TMap_Add (LevelName LoadedLevel) True (LevelStreamingRestoreStates s)\<rparr>;
            s = emit (Broadcast (PreLoadStreamingLevel (LevelName LoadedLevel))) s
        in HandleLevelLoaded (LevelName LoadedLevel) s)"

subsection \<open>The global object registry\<close>

definition AddPersistentGlobalObject :: "Host \<Rightarrow> UObject option \<Rightarrow> USpudSubsystem \<Rightarrow> USpudSubsystem" where
  "AddPersistentGlobalObject h Obj s =
     s\<lparr>GlobalObjects := TArray_AddUnique h Obj (GlobalObjects s)\<rparr>"

definition AddPersistentGlobalObjectWithName ::
  "UObject option \<Rightarrow> FString \<Rightarrow> USpudSubsystem \<Rightarrow> USpudSubsystem" where
  "AddPersistentGlobalObjectWithName Obj Name s =
     s\<lparr>NamedGlobalObjects := TMap_Add Name Obj (NamedGlobalObjects s)\<rparr>"

definition RemovePersistentGlobalObject :: "Host \<Rightarrow> UObject option \<Rightarrow> USpudSubsystem \<Rightarrow> USpudSubsystem" where
  "RemovePersistentGlobalObject h Obj s =
     (let s = s\<lparr>GlobalObjects := TArray_Remove h Obj (GlobalObjects s)\<rparr>
      in s\<lparr>NamedGlobalObjects :=
             filter (\<lambda>It. \<not> (Weak_Get h (snd It) = Obj)) (NamedGlobalObjects s)\<rparr>)"

definition Deinitialize :: "USpudSubsystem \<Rightarrow> USpudSubsystem" where
  "Deinitialize s = s\<lparr>bIsTearingDown := True\<rparr>"

subsection \<open>What the host can tell the subsystem\<close>

text \<open>
  The notifications of the engine and the calls of game code defined above, other than a
  save request, a load request, \<^verbatim>\<open>ForceReset\<close> and the screenshot delegate.
  (\<^verbatim>\<open>NewGame\<close> and \<^verbatim>\<open>EndGame\<close>, which also set the state, are not among them.) The
  \<^verbatim>\<open>OnDestroyed\<close> delegate of an actor reaches the subsystem only while it is bound.
\<close>

datatype HostEvent =
    Ev_PreLoadMap Host FString
  | Ev_SeamlessTravelStart Host "UWorld option" FString
  | Ev_PostLoadMap Host "UWorld option"
  | Ev_LevelBeginMakingVisible Host UWorld ULevel
  | Ev_LevelBeginMakingInvisible Host UWorld ULevel
  | Ev_NotifyLevelLoadedExternally FName
  | Ev_NotifyLevelUnloadedExternally ULevel
  | Ev_GameThreadTask Host
  | Ev_ActorDestroyed AActor "ULevel option"
  | Ev_MarkActorDestroyed Host AActor "ULevel option"
  | Ev_LoadActorData Host AActor bool
  | Ev_AddPersistentGlobalObject Host "UObject option"
  | Ev_AddPersistentGlobalObjectWithName "UObject option" FString
  | Ev_RemovePersistentGlobalObject Host "UObject option"

fun HandleEvent :: "HostEvent \<Rightarrow> USpudSubsystem \<Rightarrow> USpudSubsystem" where
  "HandleEvent (Ev_PreLoadMap h MapName) s = OnPreLoadMap h MapName s"
| "HandleEvent (Ev_SeamlessTravelStart h W MapName) s = OnSeamlessTravelStart h W MapName s"
| "HandleEvent (Ev_PostLoadMap h W) s = OnPostLoadMap h W s"
| "HandleEvent (Ev_LevelBeginMakingVisible h W L) s = OnLevelBeginMakingVisible h W L s"
| "HandleEvent (Ev_LevelBeginMakingInvisible h W L) s = OnLevelBeginMakingInvisible h W L s"
| "HandleEvent (Ev_NotifyLevelLoadedExternally n) s = NotifyLevelLoadedExternally n s"
| "HandleEvent (Ev_NotifyLevelUnloadedExternally L) s = NotifyLevelUnloadedExternally L s"
| "HandleEvent (Ev_GameThreadTask h) s = RunGameThreadTask h s"
| "HandleEvent (Ev_ActorDestroyed A L) s =
     (if ActorId A \<in> Subscribed s then OnActorDestroyed A L s else s)"
| "HandleEvent (Ev_MarkActorDestroyed h A L) s = MarkActorDestroyed h A L s"
| "HandleEvent (Ev_LoadActorData h A b) s = LoadActorData h A b s"
| "HandleEvent (Ev_AddPersistentGlobalObject h Obj) s = AddPersistentGlobalObject h Obj s"
| "HandleEvent (Ev_AddPersistentGlobalObjectWithName Obj Name) s =
     AddPersistentGlobalObjectWithName Obj Name s"
| "HandleEvent (Ev_RemovePersistentGlobalObject h Obj) s = RemovePersistentGlobalObject h Obj s"

definition HandleEvents :: "HostEvent list \<Rightarrow> USpudSubsystem \<Rightarrow> USpudSubsystem" where
  "HandleEvents evs s = fold HandleEvent evs s"

text \<open>The calls that belong to the save pipeline proper (\<^verbatim>\<open>FinishSaveGame\<close> and
  \<^verbatim>\<open>SaveComplete\<close>): serialization of the globals, stamping, the write, the completion.\<close>

fun IsSavePipelineCall :: "call \<Rightarrow> bool" where
  "IsSavePipelineCall State_StoreWorldGlobals = True"
| "IsSavePipelineCall (State_StoreGlobalObject _ _) = True"
| "IsSavePipelineCall (State_SetTitle _) = True"
| "IsSavePipelineCall State_SetTimestamp = True"
| "IsSavePipelineCall (State_SetCustomSaveInfo _) = True"
| "IsSavePipelineCall (State_SetScreenshot _) = True"
| "IsSavePipelineCall (CreateFileWriter _) = True"
| "IsSavePipelineCall (State_SaveToArchive _) = True"
| "IsSavePipelineCall (Broadcast (PostSaveGame _ _)) = True"
| "IsSavePipelineCall _ = False"

section \<open>The background upgrade task\<close>

text \<open>\<^verbatim>\<open>FUpgradeAllSavesAction::FUpgradeTask\<close>. Its calls on the file manager, on the
  state object it makes for each file and on the upgrade delegate are returned in
  program order. \<open>UpgradeCallbackExecute\<close> is the delegate's answer for the state loaded
  from the file of the given name.\<close>

record FUpgradeTask =
  bUpgradeAlways :: bool
  UpgradeCallbackIsBound :: bool
  UpgradeCallbackExecute :: "FString \<Rightarrow> bool"

datatype upgrade_call =
    Up_CreateFileReader FString
  | Up_LoadFromArchive FArchive bool
  | Up_Close FArchive
  | Up_LogError string
  | Up_Execute FString
  | Up_Move FString FString
  | Up_CreateFileWriter FString
  | Up_SaveToArchive FArchive

definition SaveNeedsUpgrading :: "FSpudSaveData \<Rightarrow> bool" where
  "SaveNeedsUpgrading State =
     (if GlobalDataOutdated State then True
      else list_ex (\<lambda>outdated. outdated) (LevelDataOutdated State))"

definition DoWork :: "Host \<Rightarrow> FUpgradeTask \<Rightarrow> upgrade_call list" where
  "DoWork h task =
     (if \<not> UpgradeCallbackIsBound task then []
      else
        fold (\<lambda>SaveFile calls.
                let AbsoluteFilename = GetSaveGameDirectory h @ SaveFile;
                    calls = calls @ [Up_CreateFileReader AbsoluteFilename]
                in if FileReaderOpens h AbsoluteFilename
                   then
                     let calls = calls @ [Up_LoadFromArchive (FileReader AbsoluteFilename) True,
                                          Up_Close (FileReader AbsoluteFilename)]
                     in if ArchiveHasError h (FileReader AbsoluteFilename)
                        then calls @ [Up_LogError
                               (''Error while loading game to check for upgrades: '' @ SaveFile)]
                        else if bUpgradeAlways task \<or>
                                SaveNeedsUpgrading (LoadedSaveData h AbsoluteFilename)
                        then
                          let calls = calls @ [Up_Execute AbsoluteFilename]
                          in if UpgradeCallbackExecute task AbsoluteFilename
                             then
                               let calls = calls @ [Up_Move (AbsoluteFilename @ ''.bak'')
                                                      AbsoluteFilename,
                                                    Up_CreateFileWriter AbsoluteFilename]
                               in if FileWriterOpens h AbsoluteFilename
                                  then calls @ [Up_SaveToArchive (FileWriter AbsoluteFilename)]
                                  else calls
                             else calls
                        else calls
                   else calls)
             (SaveGameFiles h) [])"

section \<open>Notions used to state the properties\<close>

text \<open>The actors of a level whose \<^verbatim>\<open>OnDestroyed\<close> delegate the subsystem binds and
  unbinds: the persistent ones that were not spawned at runtime.\<close>

definition TrackedActors :: "ULevel \<Rightarrow> nat set" where
  "TrackedActors L =
     set (map ActorId (filter (\<lambda>A. IsPersistentObject A \<and> \<not> IsRuntimeActor A) (Actors L)))"

text \<open>The three calls of one \<^verbatim>\<open>StoreLevel\<close>.\<close>

definition StoreLevelCalls :: "bool \<Rightarrow> bool \<Rightarrow> ULevel \<Rightarrow> call list" where
  "StoreLevelCalls bRelease bBlocking L =
     [Broadcast (PreLevelStore (LevelName L)),
      State_StoreLevel (LevelName L) bRelease bBlocking,
      Broadcast (PostLevelStore (LevelName L) True)]"

text \<open>What a save that waits for its screenshot consists of: the state, the request kept
  in the three \<^verbatim>\<open>InProgress\<close> members, the bound delegate, and the calls of the save
  pipeline made so far.\<close>

definition PendingSave ::
  "USpudSubsystem \<Rightarrow>
   ESpudSystemState \<times> FString \<times> FText \<times> USpudCustomSaveInfo option \<times> bool \<times> call list" where
  "PendingSave s =
     (CurrentState s, SlotNameInProgress s, TitleInProgress s, ExtraInfoInProgress s,
      OnScreenshotHandle s, filter IsSavePipelineCall (Calls s))"

text \<open>The calls of \<^verbatim>\<open>FinishSaveGame\<close>, in program order: the global objects whose weak
  pointers are valid, every level of the world, the stamps, the write and the completion
  event.\<close>

definition GlobalObjectCalls :: "Host \<Rightarrow> USpudSubsystem \<Rightarrow> call list" where
  "GlobalObjectCalls h s =
     concat (map (\<lambda>Ptr. case Weak_Get h Ptr of
                           Some obj \<Rightarrow> [State_StoreGlobalObject obj None]
                         | None \<Rightarrow> []) (GlobalObjects s)) @
     concat (map (\<lambda>Pair. case Weak_Get h (snd Pair) of
                            Some obj \<Rightarrow> [State_StoreGlobalObject obj (Some (fst Pair))]
                          | None \<Rightarrow> []) (NamedGlobalObjects s))"

definition WriteCalls :: "Host \<Rightarrow> FString \<Rightarrow> call list" where
  "WriteCalls h SlotName =
     (let path = GetSaveGameFilePath h SlotName in
      CreateFileWriter path #
      (if FileWriterOpens h path
       then [State_SaveToArchive (FileWriter path), Archive_Close (FileWriter path)] @
            (if ArchiveHasError h (FileWriter path)
             then [LogError (''Error while saving game to '' @ SlotName)] else [])
       else [LogError (''Error while creating save game for slot '' @ SlotName)]))"

definition SaveOK :: "Host \<Rightarrow> FString \<Rightarrow> bool" where
  "SaveOK h SlotName =
     (FileWriterOpens h (GetSaveGameFilePath h SlotName) \<and>
      \<not> ArchiveHasError h (FileWriter (GetSaveGameFilePath h SlotName)))"

definition FinishSaveGameCalls ::
  "Host \<Rightarrow> FString \<Rightarrow> FText \<Rightarrow> USpudCustomSaveInfo option \<Rightarrow> nat list option \<Rightarrow>
   USpudSubsystem \<Rightarrow> call list" where
  "FinishSaveGameCalls h SlotName Title ExtraInfo ScreenshotData s =
     State_StoreWorldGlobals # GlobalObjectCalls h s @
     concat (map (StoreLevelCalls False True) (Levels (World h))) @
     [State_SetTitle Title, State_SetTimestamp, State_SetCustomSaveInfo ExtraInfo] @
     (case ScreenshotData of Some png \<Rightarrow> [State_SetScreenshot png] | None \<Rightarrow> []) @
     WriteCalls h SlotName @
     [Broadcast (PostSaveGame SlotName (SaveOK h SlotName))]"

text \<open>The calls of \<^verbatim>\<open>SaveGame\<close>: a failure report, or the announcement followed by
  the screenshot request or by the calls of \<^verbatim>\<open>FinishSaveGame\<close>.\<close>

definition SaveGameCalls ::
  "Host \<Rightarrow> FString \<Rightarrow> FText \<Rightarrow> bool \<Rightarrow> USpudCustomSaveInfo option \<Rightarrow> USpudSubsystem \<Rightarrow>
   call list" where
  "SaveGameCalls h SlotName Title bTakeScreenshot ExtraInfo s =
     (if \<not> ServerCheck h True then [Broadcast (PostSaveGame SlotName False)]
      else if SlotName = []
        then [LogError ''Cannot save a game with a blank slot name'',
              Broadcast (PostSaveGame SlotName False)]
      else if CurrentState s \<noteq> RunningIdle
        then [LogError ''TODO: Overlapping calls to save/load, resolve this'',
              Broadcast (PostSaveGame SlotName False)]
      else Broadcast (PreSaveGame SlotName) #
             (if bTakeScreenshot
              then (if \<not> HasGameInstance h then [Abort ''GetGameInstance() is null'']
                    else if \<not> HasGameViewportClient h then [Abort ''check(ViewportClient)'']
                    else [RequestScreenshot False])
              else FinishSaveGameCalls h SlotName Title ExtraInfo None s))"

section \<open>Sample inputs\<close>

definition crate :: AActor where
  "crate = \<lparr>ActorId = 7, IsPersistentObject = True, IsRuntimeActor = False\<rparr>"

definition zoneA :: ULevel where
  "zoneA = \<lparr>LevelName = ''ZoneA'', Actors = [crate], bIsBeingRemoved = False\<rparr>"

definition world0 :: UWorld where
  "world0 = \<lparr>Levels = [zoneA], CurrentLevelName = ''Map'', IsNetModeClient = False\<rparr>"

definition host0 :: Host where
  "host0 = \<lparr>bEnableSPUD = True, HasGameInstance = True, HasGameInstanceWorld = True,
     HasAuthGameMode = True, HasGameViewportClient = True, HasPlayerController = True,
     HasLocalPlayer = True, HasLocalPlayerViewportClient = True,
     World = world0, WorldIsValid = True,
     ObjectAlive = (\<lambda>_. True), StateCanRestoreLevel = (\<lambda>_. False),
     StateCanRestoreWorld = (\<lambda>_. False), StateGetPersistentLevel = ''Map'',
     ProjectSavedDir = ''Saved/'', FileWriterOpens = (\<lambda>_. True),
     FileReaderOpens = (\<lambda>_. False), ArchiveHasError = (\<lambda>_. False),
     GetStreamingLevel = (\<lambda>_. None), CompressThumbnail = (\<lambda>_ _ Colours. Colours),
     SaveGameFiles = [''a.sav''],
     LoadedSaveData = (\<lambda>_. \<lparr>GlobalDataOutdated = False, LevelDataOutdated = []\<rparr>)\<rparr>"

definition clientHost :: Host where
  "clientHost = host0\<lparr>HasAuthGameMode := False\<rparr>"

definition idle0 :: USpudSubsystem where
  "idle0 = \<lparr>CurrentState = RunningIdle, bIsRestoringState = False, bIsTearingDown = False,
     bSaveLevelStateWhileTraveling = True, SlotNameInProgress = '''', TitleInProgress = '''',
     ExtraInfoInProgress = None, OnScreenshotHandle = False, GlobalObjects = [],
     NamedGlobalObjects = [], LevelStreamingRestoreStates = [], Subscribed = {7},
     GameThreadTasks = [], Calls = []\<rparr>"

definition saving1 :: USpudSubsystem where
  "saving1 = SaveGame host0 ''S1'' ''First'' True None idle0"

definition readableHost :: Host where
  "readableHost = host0\<lparr>FileReaderOpens := (\<lambda>_. True)\<rparr>"

definition loading1 :: USpudSubsystem where
  "loading1 = LoadGame readableHost ''S1'' True '''' idle0"

definition diskFullHost :: Host where
  "diskFullHost = host0\<lparr>FileReaderOpens := (\<lambda>_. True),
     ArchiveHasError := (\<lambda>a. case a of FileWriter _ \<Rightarrow> True
                                | FileReader path \<Rightarrow> path = ''Saved/SaveGames/a.sav''),
     SaveGameFiles := [''a.sav'', ''b.sav'']\<rparr>"

definition upgradeAll :: FUpgradeTask where
  "upgradeAll = \<lparr>bUpgradeAlways = True, UpgradeCallbackIsBound = True,
     UpgradeCallbackExecute = (\<lambda>_. True)\<rparr>"

definition restorableHost :: Host where
  "restorableHost = host0\<lparr>StateCanRestoreWorld := (\<lambda>_. True)\<rparr>"

definition quietHours :: "HostEvent list" where
  "quietHours =
     [Ev_PostLoadMap host0 (Some world0), Ev_LevelBeginMakingInvisible host0 world0 zoneA,
      Ev_ActorDestroyed crate (Some zoneA), Ev_LoadActorData host0 crate True,
      Ev_PreLoadMap host0 ''Map'']"

definition registered1 :: USpudSubsystem where
  "registered1 = AddPersistentGlobalObjectWithName (Some 3) ''Player''
                   (AddPersistentGlobalObject host0 (Some 3)
                      (AddPersistentGlobalObject host0 (Some 5) idle0))"

text \<open>A host for which object 3 has been destroyed.\<close>

definition deadHost :: Host where
  "deadHost = host0\<lparr>ObjectAlive := (\<lambda>obj. obj \<noteq> 3)\<rparr>"

section \<open>The loops, in closed form\<close>

lemma NewCalls_append [simp]: "Calls s' = Calls s @ cs \<Longrightarrow> NewCalls s s' = cs"
  by (simp add: NewCalls_def)

lemma NewCalls_same [simp]: "NewCalls s s = []"
  by (simp add: NewCalls_def)

lemma fold_unsubscribe:
  "fold (\<lambda>Actor s.
           if \<not> IsPersistentObject Actor then s
           else if \<not> IsRuntimeActor Actor
             then s\<lparr>Subscribed := Subscribed s - {ActorId Actor}\<rparr>
             else s) As s
   = s\<lparr>Subscribed := Subscribed s -
         set (map ActorId (filter (\<lambda>A. IsPersistentObject A \<and> \<not> IsRuntimeActor A) As))\<rparr>"
  (is "fold ?F As s = s\<lparr>Subscribed := Subscribed s - ?T As\<rparr>")
proof (induction As arbitrary: s)
  case Nil
  show ?case by simp
next
  case (Cons A As)
  have step: "?F A s = s\<lparr>Subscribed := Subscribed s - ?T [A]\<rparr>"
    by simp
  have eq: "Subscribed s - ?T [A] - ?T As = Subscribed s - ?T (A # As)"
    by auto
  have "fold ?F (A # As) s = fold ?F As (?F A s)"
    by simp
  also have "\<dots> = (?F A s)\<lparr>Subscribed := Subscribed (?F A s) - ?T As\<rparr>"
    by (rule Cons.IH)
  also have "\<dots> = s\<lparr>Subscribed := Subscribed s - ?T (A # As)\<rparr>"
    unfolding step using eq by simp
  finally show ?case .
qed

lemma fold_subscribe:
  "fold (\<lambda>Actor s.
           if \<not> IsPersistentObject Actor then s
           else if \<not> IsRuntimeActor Actor
             then s\<lparr>Subscribed := insert (ActorId Actor) (Subscribed s)\<rparr>
             else s) As s
   = s\<lparr>Subscribed := Subscribed s \<union>
         set (map ActorId (filter (\<lambda>A. IsPersistentObject A \<and> \<not> IsRuntimeActor A) As))\<rparr>"
  (is "fold ?F As s = s\<lparr>Subscribed := Subscribed s \<union> ?T As\<rparr>")
proof (induction As arbitrary: s)
  case Nil
  show ?case by simp
next
  case (Cons A As)
  have step: "?F A s = s\<lparr>Subscribed := Subscribed s \<union> ?T [A]\<rparr>"
    by simp
  have eq: "Subscribed s \<union> ?T [A] \<union> ?T As = Subscribed s \<union> ?T (A # As)"
    by auto
  have "fold ?F (A # As) s = fold ?F As (?F A s)"
    by simp
  also have "\<dots> = (?F A s)\<lparr>Subscribed := Subscribed (?F A s) \<union> ?T As\<rparr>"
    by (rule Cons.IH)
  also have "\<dots> = s\<lparr>Subscribed := Subscribed s \<union> ?T (A # As)\<rparr>"
    unfolding step using eq by simp
  finally show ?case .
qed

lemma Unsubscribe_Some:
  "UnsubscribeLevelObjectEvents (Some L) s = s\<lparr>Subscribed := Subscribed s - TrackedActors L\<rparr>"
  by (simp add: UnsubscribeLevelObjectEvents_def TrackedActors_def fold_unsubscribe)

lemma Subscribe_Some:
  "SubscribeLevelObjectEvents (Some L) s = s\<lparr>Subscribed := Subscribed s \<union> TrackedActors L\<rparr>"
  by (simp add: SubscribeLevelObjectEvents_def TrackedActors_def fold_subscribe)

lemma fold_Unsubscribe_levels:
  "fold (\<lambda>Level. UnsubscribeLevelObjectEvents (Some Level)) Ls s
   = s\<lparr>Subscribed := Subscribed s - \<Union> (TrackedActors ` set Ls)\<rparr>"
proof (induction Ls arbitrary: s)
  case Nil
  show ?case by simp
next
  case (Cons L Ls)
  let ?f = "\<lambda>Level. UnsubscribeLevelObjectEvents (Some Level)"
  have eq: "Subscribed s - TrackedActors L - \<Union> (TrackedActors ` set Ls)
        = Subscribed s - \<Union> (TrackedActors ` set (L # Ls))"
    by auto
  have "fold ?f (L # Ls) s = fold ?f Ls (UnsubscribeLevelObjectEvents (Some L) s)"
    by simp
  also have "\<dots> = (UnsubscribeLevelObjectEvents (Some L) s)
      \<lparr>Subscribed := Subscribed (UnsubscribeLevelObjectEvents (Some L) s)
         - \<Union> (TrackedActors ` set Ls)\<rparr>"
    by (rule Cons.IH)
  also have "\<dots> = s\<lparr>Subscribed := Subscribed s - \<Union> (TrackedActors ` set (L # Ls))\<rparr>"
    unfolding Unsubscribe_Some using eq by simp
  finally show ?case .
qed

lemma fold_Subscribe_levels:
  "fold (\<lambda>Level. SubscribeLevelObjectEvents (Some Level)) Ls s
   = s\<lparr>Subscribed := Subscribed s \<union> \<Union> (TrackedActors ` set Ls)\<rparr>"
proof (induction Ls arbitrary: s)
  case Nil
  show ?case by simp
next
  case (Cons L Ls)
  let ?f = "\<lambda>Level. SubscribeLevelObjectEvents (Some Level)"
  have eq: "Subscribed s \<union> TrackedActors L \<union> \<Union> (TrackedActors ` set Ls)
        = Subscribed s \<union> \<Union> (TrackedActors ` set (L # Ls))"
    by auto
  have "fold ?f (L # Ls) s = fold ?f Ls (SubscribeLevelObjectEvents (Some L) s)"
    by simp
  also have "\<dots> = (SubscribeLevelObjectEvents (Some L) s)
      \<lparr>Subscribed := Subscribed (SubscribeLevelObjectEvents (Some L) s)
         \<union> \<Union> (TrackedActors ` set Ls)\<rparr>"
    by (rule Cons.IH)
  also have "\<dots> = s\<lparr>Subscribed := Subscribed s \<union> \<Union> (TrackedActors ` set (L # Ls))\<rparr>"
    unfolding Subscribe_Some using eq by simp
  finally show ?case .
qed

lemma StoreLevel_eq:
  "StoreLevel L r b s = s\<lparr>Calls := Calls s @ StoreLevelCalls r b L\<rparr>"
  by (simp add: StoreLevel_def StoreLevelCalls_def emit_def)

lemma fold_StoreLevel:
  "fold (\<lambda>Level. StoreLevel Level r b) Ls s
   = s\<lparr>Calls := Calls s @ concat (map (StoreLevelCalls r b) Ls)\<rparr>"
proof (induction Ls arbitrary: s)
  case Nil
  show ?case by simp
next
  case (Cons L Ls)
  have "fold (\<lambda>Level. StoreLevel Level r b) (L # Ls) s
        = fold (\<lambda>Level. StoreLevel Level r b) Ls (StoreLevel L r b s)"
    by simp
  also have "\<dots> = (StoreLevel L r b s)
      \<lparr>Calls := Calls (StoreLevel L r b s) @ concat (map (StoreLevelCalls r b) Ls)\<rparr>"
    by (rule Cons.IH)
  also have "\<dots> = s\<lparr>Calls := Calls s @ concat (map (StoreLevelCalls r b) (L # Ls))\<rparr>"
    unfolding StoreLevel_eq by simp
  finally show ?case .
qed

lemma StoreWorld_eq:
  "StoreWorld W r b s = s\<lparr>Calls := Calls s @ concat (map (StoreLevelCalls r b) (Levels W))\<rparr>"
  by (simp add: StoreWorld_def fold_StoreLevel)

lemma fold_emit:
  "fold (\<lambda>x. emit (f x)) xs s = s\<lparr>Calls := Calls s @ map f xs\<rparr>"
proof (induction xs arbitrary: s)
  case Nil
  show ?case by simp
next
  case (Cons x xs)
  have "fold (\<lambda>x. emit (f x)) (x # xs) s = fold (\<lambda>x. emit (f x)) xs (emit (f x) s)"
    by simp
  also have "\<dots> = (emit (f x) s)\<lparr>Calls := Calls (emit (f x) s) @ map f xs\<rparr>"
    by (rule Cons.IH)
  also have "\<dots> = s\<lparr>Calls := Calls s @ map f (x # xs)\<rparr>"
    unfolding emit_def by simp
  finally show ?case .
qed

lemma fold_emit_option:
  "fold (\<lambda>x s. case g x of Some y \<Rightarrow> emit (f x y) s | None \<Rightarrow> s) xs s
   = s\<lparr>Calls := Calls s @ concat (map (\<lambda>x. case g x of Some y \<Rightarrow> [f x y] | None \<Rightarrow> []) xs)\<rparr>"
proof (induction xs arbitrary: s)
  case Nil
  show ?case by simp
next
  case (Cons x xs)
  let ?F = "\<lambda>x s. case g x of Some y \<Rightarrow> emit (f x y) s | None \<Rightarrow> s"
  let ?c = "\<lambda>x. case g x of Some y \<Rightarrow> [f x y] | None \<Rightarrow> []"
  have step: "?F x s = s\<lparr>Calls := Calls s @ ?c x\<rparr>"
    by (cases "g x") (simp_all add: emit_def)
  have "fold ?F (x # xs) s = fold ?F xs (?F x s)"
    by simp
  also have "\<dots> = (?F x s)\<lparr>Calls := Calls (?F x s) @ concat (map ?c xs)\<rparr>"
    by (rule Cons.IH)
  also have "\<dots> = s\<lparr>Calls := Calls s @ concat (map ?c (x # xs))\<rparr>"
    unfolding step by simp
  finally show ?case .
qed

section \<open>The save pipeline, in closed form\<close>

lemma FinishSaveGame_eq:
  "FinishSaveGame h SlotName Title ExtraInfo ScreenshotData s =
     s\<lparr>CurrentState := RunningIdle, SlotNameInProgress := '''', TitleInProgress := '''',
       ExtraInfoInProgress := None,
       Calls := Calls s @ FinishSaveGameCalls h SlotName Title ExtraInfo ScreenshotData s\<rparr>"
  unfolding FinishSaveGame_def Let_def fold_emit_option StoreWorld_eq
  by (cases ScreenshotData)
     (simp_all add: emit_def SaveComplete_def FinishSaveGameCalls_def GlobalObjectCalls_def
        WriteCalls_def SaveOK_def Let_def)

lemma Weak_Get_Some:
  "Weak_Get h p = Some obj \<Longrightarrow> p = Some obj \<and> ObjectAlive h obj"
  by (cases p) (simp_all add: Weak_Get_def Weak_IsValid_def split: if_splits)

lemma StoreGlobalObject_in_GlobalObjectCalls:
  assumes "State_StoreGlobalObject obj name \<in> set (GlobalObjectCalls h s)"
  shows "ObjectAlive h obj \<and>
     (Some obj \<in> set (GlobalObjects s) \<or> Some obj \<in> snd ` set (NamedGlobalObjects s))"
proof -
  from assms consider
      (unnamed) Ptr where "Ptr \<in> set (GlobalObjects s)" "Weak_Get h Ptr = Some obj"
    | (named) Pair where "Pair \<in> set (NamedGlobalObjects s)" "Weak_Get h (snd Pair) = Some obj"
    by (auto simp: GlobalObjectCalls_def split: option.splits)
  then show ?thesis
  proof cases
    case unnamed
    then show ?thesis using Weak_Get_Some by blast
  next
    case named
    from named(2) have "snd Pair = Some obj" "ObjectAlive h obj"
      using Weak_Get_Some by blast+
    with named(1) show ?thesis by force
  qed
qed

lemma StoreGlobalObject_in_FinishSaveGameCalls:
  "State_StoreGlobalObject obj name \<in> set (FinishSaveGameCalls h n t e sd s) \<Longrightarrow>
     State_StoreGlobalObject obj name \<in> set (GlobalObjectCalls h s)"
  by (auto simp: FinishSaveGameCalls_def StoreLevelCalls_def WriteCalls_def Let_def
        split: option.splits if_splits)

lemma SaveGame_calls:
  "Calls (SaveGame h SlotName Title bTakeScreenshot ExtraInfo s) =
     Calls s @ SaveGameCalls h SlotName Title bTakeScreenshot ExtraInfo s"
  by (simp add: SaveGame_def SaveGameCalls_def SaveComplete_def FinishSaveGame_eq emit_def
        Let_def FinishSaveGameCalls_def GlobalObjectCalls_def)

lemma StoreGlobalObject_in_SaveGameCalls:
  "State_StoreGlobalObject obj name \<in> set (SaveGameCalls h n t b e s) \<Longrightarrow>
     State_StoreGlobalObject obj name \<in> set (GlobalObjectCalls h s)"
  by (auto simp: SaveGameCalls_def split: if_splits
        dest: StoreGlobalObject_in_FinishSaveGameCalls)

lemma Remove_GlobalObjects:
  "Some obj \<notin> set (GlobalObjects (RemovePersistentGlobalObject h (Some obj) s))"
  by (simp add: RemovePersistentGlobalObject_def TArray_Remove_def Weak_Eq_def Let_def)

lemma Remove_NamedGlobalObjects:
  "e \<in> set (NamedGlobalObjects (RemovePersistentGlobalObject h Obj s)) \<Longrightarrow>
     Weak_Get h (snd e) \<noteq> Obj"
  by (simp add: RemovePersistentGlobalObject_def Let_def)

lemma SaveGame_screenshot_accepted:
  "ServerCheck h True \<Longrightarrow> SlotName \<noteq> [] \<Longrightarrow> CurrentState s = RunningIdle \<Longrightarrow>
   HasGameInstance h \<Longrightarrow> HasGameViewportClient h \<Longrightarrow>
     SaveGame h SlotName Title True ExtraInfo s =
       s\<lparr>CurrentState := SavingGame, SlotNameInProgress := SlotName, TitleInProgress := Title,
         ExtraInfoInProgress := ExtraInfo, OnScreenshotHandle := True,
         Calls := Calls s @ [Broadcast (PreSaveGame SlotName), RequestScreenshot False]\<rparr>"
  by (simp add: SaveGame_def emit_def Let_def)

text \<open>Without a game instance or a game viewport client the request ends the process
  after it has announced the save: no screenshot is requested.\<close>

lemma SaveGame_screenshot_aborts:
  "ServerCheck h True \<Longrightarrow> SlotName \<noteq> [] \<Longrightarrow> CurrentState s = RunningIdle \<Longrightarrow>
   \<not> (HasGameInstance h \<and> HasGameViewportClient h) \<Longrightarrow>
     \<exists>why. NewCalls s (SaveGame h SlotName Title True ExtraInfo s) =
             [Broadcast (PreSaveGame SlotName), Abort why]"
  by (auto simp add: SaveGame_def emit_def Let_def)

lemma OnScreenshotCaptured_eq:
  "HasPlayerController h \<Longrightarrow> HasLocalPlayer h \<Longrightarrow> HasLocalPlayerViewportClient h \<Longrightarrow>
   OnScreenshotCaptured h Width Height Colours s =
     s\<lparr>OnScreenshotHandle := False, CurrentState := RunningIdle, SlotNameInProgress := '''',
       TitleInProgress := '''', ExtraInfoInProgress := None,
       Calls := Calls s @
         FinishSaveGameCalls h (SlotNameInProgress s) (TitleInProgress s) (ExtraInfoInProgress s)
           (Some (CompressThumbnail h Width Height Colours)) s\<rparr>"
  by (simp add: OnScreenshotCaptured_def FinishSaveGame_eq Let_def FinishSaveGameCalls_def
        GlobalObjectCalls_def)

text \<open>A request that finds the state other than \<^verbatim>\<open>RunningIdle\<close> leaves it
  \<^verbatim>\<open>RunningIdle\<close>, whatever it was.\<close>

lemma rejected_save_resets_state:
  "CurrentState s \<noteq> RunningIdle \<Longrightarrow> CurrentState (SaveGame h n t b e s) = RunningIdle"
  by (simp add: SaveGame_def SaveComplete_def emit_def Let_def)

lemma rejected_load_resets_state:
  "CurrentState s \<noteq> RunningIdle \<Longrightarrow> CurrentState (LoadGame h n a opts s) = RunningIdle"
  by (simp add: LoadGame_def LoadComplete_def emit_def Let_def)

section \<open>Level events, in closed form\<close>

lemma HandleLevelUnloaded_eq:
  "HandleLevelUnloaded L s =
     s\<lparr>Subscribed := Subscribed s - TrackedActors L,
       Calls := Calls s @ (if CurrentState s \<noteq> LoadingGame \<and> \<not> bIsTearingDown s
                          then StoreLevelCalls True False L else [])\<rparr>"
  by (simp add: HandleLevelUnloaded_def Unsubscribe_Some StoreLevel_eq Let_def)

lemma OnPreLoadMap_eq:
  "OnPreLoadMap h MapName s =
     (if \<not> ServerCheck h False then s
      else if CurrentState s = RunningIdle
      then s\<lparr>Subscribed := (if WorldIsValid h
                             then Subscribed s - \<Union> (TrackedActors ` set (Levels (World h)))
                             else Subscribed s),
             Calls := Calls s @ Broadcast (PreTravelToNewMap MapName) #
               (if WorldIsValid h
                then (if bSaveLevelStateWhileTraveling s
                      then concat (map (StoreLevelCalls True True) (Levels (World h)))
                      else map (\<lambda>Level. State_ReleaseLevelData (LevelName Level) True)
                             (Levels (World h)))
                else [])\<rparr>
      else s\<lparr>Calls := Calls s @ [Broadcast (PreTravelToNewMap MapName)]\<rparr>)"
  unfolding OnPreLoadMap_def UnsubscribeAllLevelObjectEvents_def Let_def
    fold_Unsubscribe_levels StoreWorld_eq fold_emit
  by (simp add: emit_def)

section \<open>A save that waits for its screenshot\<close>

text \<open>No notification of the host and no call of game code in \<open>HostEvent\<close> touches a
  pending save: each handler is checked in turn, then a list of them by induction.\<close>

lemma StoreLevelCalls_not_pipeline [simp]:
  "filter IsSavePipelineCall (StoreLevelCalls r b L) = []"
  by (simp add: StoreLevelCalls_def)

lemma PendingSave_OnPreLoadMap:
  "CurrentState s = SavingGame \<Longrightarrow> PendingSave (OnPreLoadMap h MapName s) = PendingSave s"
  by (simp add: OnPreLoadMap_eq PendingSave_def)

lemma PendingSave_OnSeamlessTravelStart:
  "CurrentState s = SavingGame \<Longrightarrow>
     PendingSave (OnSeamlessTravelStart h W MapName s) = PendingSave s"
  by (simp add: OnSeamlessTravelStart_def PendingSave_OnPreLoadMap split: option.split)

lemma PendingSave_OnPostLoadMap:
  "CurrentState s = SavingGame \<Longrightarrow> PendingSave (OnPostLoadMap h W s) = PendingSave s"
  by (simp add: OnPostLoadMap_def PendingSave_def emit_def)

lemma PendingSave_HandleLevelLoaded:
  "PendingSave (HandleLevelLoaded n s) = PendingSave s"
  by (simp add: HandleLevelLoaded_def PendingSave_def emit_def)

lemma PendingSave_OnLevelBeginMakingVisible:
  "PendingSave (OnLevelBeginMakingVisible h W L s) = PendingSave s"
  by (simp add: OnLevelBeginMakingVisible_def PendingSave_HandleLevelLoaded Let_def)
     (simp add: PendingSave_def emit_def)

lemma PendingSave_HandleLevelUnloaded:
  "PendingSave (HandleLevelUnloaded L s) = PendingSave s"
  by (simp add: HandleLevelUnloaded_eq PendingSave_def)

lemma PendingSave_OnLevelBeginMakingInvisible:
  "PendingSave (OnLevelBeginMakingInvisible h W L s) = PendingSave s"
  by (simp add: OnLevelBeginMakingInvisible_def HandleLevelUnloaded_eq PendingSave_def emit_def)

lemma PendingSave_PostLoadStreamLevelGameThread:
  "PendingSave (PostLoadStreamLevelGameThread h n s) = PendingSave s"
  by (simp add: PostLoadStreamLevelGameThread_def Subscribe_Some PendingSave_def emit_def
        Let_def split: option.split)

lemma PendingSave_RunGameThreadTask:
  "PendingSave (RunGameThreadTask h s) = PendingSave s"
proof (cases "GameThreadTasks s")
  case Nil
  then show ?thesis by (simp add: RunGameThreadTask_def)
next
  case (Cons n rest)
  have "PendingSave (RunGameThreadTask h s)
        = PendingSave (PostLoadStreamLevelGameThread h n (s\<lparr>GameThreadTasks := rest\<rparr>))"
    using Cons by (simp add: RunGameThreadTask_def Let_def) (simp add: PendingSave_def emit_def)
  also have "\<dots> = PendingSave (s\<lparr>GameThreadTasks := rest\<rparr>)"
    by (rule PendingSave_PostLoadStreamLevelGameThread)
  also have "\<dots> = PendingSave s"
    by (simp add: PendingSave_def)
  finally show ?thesis .
qed

lemma PendingSave_OnActorDestroyed:
  "CurrentState s = SavingGame \<Longrightarrow> PendingSave (OnActorDestroyed A G s) = PendingSave s"
  by (simp add: OnActorDestroyed_def)

lemma PendingSave_LoadActorData:
  "PendingSave (LoadActorData h A b s) = PendingSave s"
  by (simp add: LoadActorData_def PendingSave_def emit_def Let_def)

lemma PendingSave_HandleEvent:
  "CurrentState s = SavingGame \<Longrightarrow> PendingSave (HandleEvent e s) = PendingSave s"
proof (cases e)
  case (Ev_PreLoadMap h n)
  then show ?thesis if "CurrentState s = SavingGame"
    using that by (simp add: PendingSave_OnPreLoadMap)
next
  case (Ev_SeamlessTravelStart h W n)
  then show ?thesis if "CurrentState s = SavingGame"
    using that by (simp add: PendingSave_OnSeamlessTravelStart)
next
  case (Ev_PostLoadMap h W)
  then show ?thesis if "CurrentState s = SavingGame"
    using that by (simp add: PendingSave_OnPostLoadMap)
next
  case (Ev_LevelBeginMakingVisible h W L)
  then show ?thesis by (simp add: PendingSave_OnLevelBeginMakingVisible)
next
  case (Ev_LevelBeginMakingInvisible h W L)
  then show ?thesis by (simp add: PendingSave_OnLevelBeginMakingInvisible)
next
  case (Ev_NotifyLevelLoadedExternally n)
  then show ?thesis
    by (simp add: NotifyLevelLoadedExternally_def PendingSave_HandleLevelLoaded)
next
  case (Ev_NotifyLevelUnloadedExternally L)
  then show ?thesis
    by (simp add: NotifyLevelUnloadedExternally_def PendingSave_HandleLevelUnloaded)
next
  case (Ev_GameThreadTask h)
  then show ?thesis by (simp add: PendingSave_RunGameThreadTask)
next
  case (Ev_ActorDestroyed A G)
  then show ?thesis if "CurrentState s = SavingGame"
    using that by (simp add: PendingSave_OnActorDestroyed)
next
  case (Ev_MarkActorDestroyed h A G)
  then show ?thesis if "CurrentState s = SavingGame"
    using that by (simp add: MarkActorDestroyed_def PendingSave_OnActorDestroyed)
next
  case (Ev_LoadActorData h A b)
  then show ?thesis by (simp add: PendingSave_LoadActorData)
next
  case (Ev_AddPersistentGlobalObject h Obj)
  then show ?thesis by (simp add: AddPersistentGlobalObject_def PendingSave_def)
next
  case (Ev_AddPersistentGlobalObjectWithName Obj Name)
  then show ?thesis by (simp add: AddPersistentGlobalObjectWithName_def PendingSave_def)
next
  case (Ev_RemovePersistentGlobalObject h Obj)
  then show ?thesis by (simp add: RemovePersistentGlobalObject_def PendingSave_def Let_def)
qed

lemma PendingSave_HandleEvents:
  "CurrentState s = SavingGame \<Longrightarrow> PendingSave (HandleEvents evs s) = PendingSave s"
proof (induction evs arbitrary: s)
  case Nil
  show ?case by (simp add: HandleEvents_def)
next
  case (Cons e evs)
  have step: "PendingSave (HandleEvent e s) = PendingSave s"
    using Cons.prems by (rule PendingSave_HandleEvent)
  then have "CurrentState (HandleEvent e s) = SavingGame"
    using Cons.prems by (simp add: PendingSave_def)
  then have "PendingSave (HandleEvents evs (HandleEvent e s)) = PendingSave (HandleEvent e s)"
    by (rule Cons.IH)
  with step show ?case by (simp add: HandleEvents_def)
qed

section \<open>The claims\<close>

text \<open>
  Claim C1. A save or load request made while the state is not \<^verbatim>\<open>RunningIdle\<close> is to
  fail at once with the state unchanged and the operation in flight unaffected. The code
  reports the failure through \<^verbatim>\<open>SaveComplete\<close> or \<^verbatim>\<open>LoadComplete\<close>, which set the state
  to \<^verbatim>\<open>RunningIdle\<close> and clear \<^verbatim>\<open>SlotNameInProgress\<close>. Two runs show it. In
  \<open>saving1\<close> a save of slot S1 waits for its screenshot: a rejected save or load of S2
  leaves the state \<^verbatim>\<open>RunningIdle\<close>, and the screenshot then writes the file of the empty
  slot name instead of that of S1. In \<open>loading1\<close> a load of S1 waits for the map: after
  a rejected save of S2 the map's arrival restores nothing and reports no load.
\<close>

theorem C1_rejected_request_resets_state:
  "CurrentState saving1 = SavingGame
   \<and> SlotNameInProgress saving1 = ''S1''
   \<and> CurrentState (SaveGame host0 ''S2'' ''Second'' False None saving1) = RunningIdle
   \<and> SlotNameInProgress (SaveGame host0 ''S2'' ''Second'' False None saving1) = ''''
   \<and> CurrentState (LoadGame host0 ''S2'' False '''' saving1) = RunningIdle
   \<and> SlotNameInProgress (LoadGame host0 ''S2'' False '''' saving1) = ''''
   \<and> NewCalls saving1 (OnScreenshotCaptured host0 4 4 [] saving1) =
       [State_StoreWorldGlobals, Broadcast (PreLevelStore ''ZoneA''),
        State_StoreLevel ''ZoneA'' False True, Broadcast (PostLevelStore ''ZoneA'' True),
        State_SetTitle ''First'', State_SetTimestamp, State_SetCustomSaveInfo None,
        State_SetScreenshot [], CreateFileWriter ''Saved/SaveGames/S1.sav'',
        State_SaveToArchive (FileWriter ''Saved/SaveGames/S1.sav''),
        Archive_Close (FileWriter ''Saved/SaveGames/S1.sav''),
        Broadcast (PostSaveGame ''S1'' True)]
   \<and> NewCalls (SaveGame host0 ''S2'' ''Second'' False None saving1)
        (OnScreenshotCaptured host0 4 4 []
           (SaveGame host0 ''S2'' ''Second'' False None saving1)) =
       [State_StoreWorldGlobals, Broadcast (PreLevelStore ''ZoneA''),
        State_StoreLevel ''ZoneA'' False True, Broadcast (PostLevelStore ''ZoneA'' True),
        State_SetTitle '''', State_SetTimestamp, State_SetCustomSaveInfo None,
        State_SetScreenshot [], CreateFileWriter ''Saved/SaveGames/.sav'',
        State_SaveToArchive (FileWriter ''Saved/SaveGames/.sav''),
        Archive_Close (FileWriter ''Saved/SaveGames/.sav''),
        Broadcast (PostSaveGame '''' True)]
   \<and> CurrentState loading1 = LoadingGame
   \<and> NewCalls loading1 (OnPostLoadMap restorableHost (Some world0) loading1) =
       [Broadcast (PreLevelRestore ''Map''), State_RestoreLoadedWorld,
        Broadcast (PostLevelRestore ''Map'' True), Broadcast (PostLoadGame '''' True),
        Broadcast PostTravelToNewMap]
   \<and> CurrentState (SaveGame host0 ''S2'' ''Second'' False None loading1) = RunningIdle
   \<and> NewCalls (SaveGame host0 ''S2'' ''Second'' False None loading1)
        (OnPostLoadMap restorableHost (Some world0)
           (SaveGame host0 ''S2'' ''Second'' False None loading1)) =
       [Broadcast PostTravelToNewMap]"
  by code_simp

text \<open>
  Claim C2. When a level is unloaded or becomes invisible, it is stored if and only if the
  state is not \<^verbatim>\<open>LoadingGame\<close> and the subsystem is not tearing down, and its actors are
  unsubscribed either way. This holds of \<^verbatim>\<open>HandleLevelUnloaded\<close> for every input, and of
  \<^verbatim>\<open>OnLevelBeginMakingInvisible\<close> when the server check passes and the world is not a
  network client; otherwise \<^verbatim>\<open>OnLevelBeginMakingInvisible\<close> does nothing at all. The store
  is one call of \<^verbatim>\<open>USpudState::StoreLevel\<close> with release and without blocking, between
  its two events.
\<close>

theorem C2_level_unloaded_stores_unless_loading:
  "NewCalls s (HandleLevelUnloaded L s) =
     (if CurrentState s \<noteq> LoadingGame \<and> \<not> bIsTearingDown s
      then StoreLevelCalls True False L else [])
   \<and> (State_StoreLevel (LevelName L) True False \<in> set (NewCalls s (HandleLevelUnloaded L s))
        \<longleftrightarrow> CurrentState s \<noteq> LoadingGame \<and> \<not> bIsTearingDown s)
   \<and> Subscribed (HandleLevelUnloaded L s) = Subscribed s - TrackedActors L
   \<and> CurrentState (HandleLevelUnloaded L s) = CurrentState s
   \<and> (ServerCheck h True \<and> \<not> IsNetModeClient W \<longrightarrow>
        NewCalls s (OnLevelBeginMakingInvisible h W L s) =
          Broadcast (PreUnloadStreamingLevel (LevelName L)) #
          (if CurrentState s \<noteq> LoadingGame \<and> \<not> bIsTearingDown s
           then StoreLevelCalls True False L else []) @
          [Broadcast (PostUnloadStreamingLevel (LevelName L))]
        \<and> Subscribed (OnLevelBeginMakingInvisible h W L s) = Subscribed s - TrackedActors L
        \<and> CurrentState (OnLevelBeginMakingInvisible h W L s) = CurrentState s)
   \<and> (\<not> (ServerCheck h True \<and> \<not> IsNetModeClient W) \<longrightarrow>
        OnLevelBeginMakingInvisible h W L s = s)"
  by (simp add: OnLevelBeginMakingInvisible_def HandleLevelUnloaded_eq emit_def Let_def
        StoreLevelCalls_def)

theorem C2_level_unloaded_witness:
  "ServerCheck host0 True \<and> \<not> IsNetModeClient world0
   \<and> NewCalls idle0 (OnLevelBeginMakingInvisible host0 world0 zoneA idle0) =
       [Broadcast (PreUnloadStreamingLevel ''ZoneA''), Broadcast (PreLevelStore ''ZoneA''),
        State_StoreLevel ''ZoneA'' True False, Broadcast (PostLevelStore ''ZoneA'' True),
        Broadcast (PostUnloadStreamingLevel ''ZoneA'')]
   \<and> Subscribed (OnLevelBeginMakingInvisible host0 world0 zoneA idle0) = {}"
  using C2_level_unloaded_stores_unless_loading [of idle0 zoneA host0 world0]
  by (simp add: ServerCheck_def host0_def world0_def zoneA_def idle0_def crate_def
      StoreLevelCalls_def TrackedActors_def)

text \<open>On a client the level that becomes invisible is neither stored nor unsubscribed,
  although the state is \<^verbatim>\<open>RunningIdle\<close> and nothing is tearing down.\<close>

theorem C2_invisible_on_client_counterexample:
  "CurrentState idle0 \<noteq> LoadingGame \<and> \<not> bIsTearingDown idle0
   \<and> State_StoreLevel (LevelName zoneA) True False
        \<notin> set (Calls (OnLevelBeginMakingInvisible clientHost world0 zoneA idle0))
   \<and> ActorId crate \<in> TrackedActors zoneA
   \<and> ActorId crate \<in> Subscribed (OnLevelBeginMakingInvisible clientHost world0 zoneA idle0)"
  by code_simp

text \<open>
  Claim C3. When a level becomes visible and the active state has nothing stored for it
  (\<^verbatim>\<open>CanRestoreLevel\<close> answers false), the subsystem is left exactly as it was: no call
  is made, no restore is queued, and the state of the state machine is the same.
\<close>

theorem C3_visible_without_data_changes_nothing:
  "\<not> CanRestoreLevel h LoadedLevel \<Longrightarrow> OnLevelBeginMakingVisible h W LoadedLevel s = s"
  by (simp add: OnLevelBeginMakingVisible_def)

theorem C3_visible_without_data_witness:
  "\<not> CanRestoreLevel host0 zoneA \<and> OnLevelBeginMakingVisible host0 world0 zoneA idle0 = idle0"
proof -
  have h: "\<not> CanRestoreLevel host0 zoneA"
    by (simp add: CanRestoreLevel_def host0_def)
  show ?thesis
    using h C3_visible_without_data_changes_nothing [OF h, of world0 idle0] by simp
qed

text \<open>
  Claim C4. \<^verbatim>\<open>OnActorDestroyed\<close> records the actor as destroyed, by one call of
  \<^verbatim>\<open>StoreLevelActorDestroyed\<close>, if and only if the state is \<^verbatim>\<open>RunningIdle\<close> and the
  actor has a level that is not being removed. So nothing is recorded while loading or
  while the level is removed. The handler does not read \<^verbatim>\<open>bIsTearingDown\<close>.
\<close>

theorem C4_destroyed_actor_recorded_iff:
  "NewCalls s (OnActorDestroyed Actor GetLevel s) =
     (if CurrentState s = RunningIdle
         \<and> (case GetLevel of None \<Rightarrow> False | Some Level \<Rightarrow> \<not> bIsBeingRemoved Level)
      then [State_StoreLevelActorDestroyed (ActorId Actor)] else [])
   \<and> (State_StoreLevelActorDestroyed (ActorId Actor)
         \<in> set (NewCalls s (OnActorDestroyed Actor GetLevel s))
       \<longleftrightarrow> CurrentState s = RunningIdle
           \<and> (case GetLevel of None \<Rightarrow> False | Some Level \<Rightarrow> \<not> bIsBeingRemoved Level))
   \<and> OnActorDestroyed Actor GetLevel (s\<lparr>bIsTearingDown := True\<rparr>)
       = (OnActorDestroyed Actor GetLevel s)\<lparr>bIsTearingDown := True\<rparr>"
  by (simp add: OnActorDestroyed_def emit_def split: option.split)

theorem C4_destroyed_actor_witness:
  "CurrentState idle0 = RunningIdle \<and> \<not> bIsBeingRemoved zoneA
   \<and> NewCalls idle0 (OnActorDestroyed crate (Some zoneA) idle0)
       = [State_StoreLevelActorDestroyed 7]
   \<and> NewCalls loading1 (OnActorDestroyed crate (Some zoneA) loading1) = []"
proof -
  have a: "CurrentState idle0 = RunningIdle" by (simp add: idle0_def)
  have b: "\<not> bIsBeingRemoved zoneA" by (simp add: zoneA_def)
  have c: "ActorId crate = 7" by (simp add: crate_def)
  have d: "CurrentState loading1 = LoadingGame" by code_simp
  show ?thesis
    using a b c d C4_destroyed_actor_recorded_iff [of idle0 crate "Some zoneA"]
      C4_destroyed_actor_recorded_iff [of loading1 crate "Some zoneA"]
    by simp
qed

text \<open>After \<^verbatim>\<open>Deinitialize\<close> the subsystem is tearing down and still \<^verbatim>\<open>RunningIdle\<close>:
  the destruction of an actor is recorded.\<close>

theorem C4_tearing_down_counterexample:
  "bIsTearingDown (Deinitialize idle0)
   \<and> NewCalls (Deinitialize idle0) (OnActorDestroyed crate (Some zoneA) (Deinitialize idle0))
       = [State_StoreLevelActorDestroyed 7]"
  by code_simp

text \<open>
  Claim C5. A load request is to be rejected under the guards of a save request, so a load
  with an empty slot name is to fail with no side effect. \<^verbatim>\<open>LoadGame\<close> has no such
  guard: with an empty slot name it enters \<^verbatim>\<open>LoadingGame\<close>, resets the active state and
  asks the file manager for the file of the empty name, and only then reports the
  failure. \<^verbatim>\<open>SaveGame\<close> with the same name stops at its guard.
\<close>

theorem C5_load_with_empty_slot_resets_state:
  "Calls (LoadGame host0 '''' False '''' idle0) =
     [Broadcast (PreLoadGame ''''), State_ResetState,
      CreateFileReader ''Saved/SaveGames/.sav'',
      LogError ''Error while opening save game for slot '',
      Broadcast (PostLoadGame '''' False)]
   \<and> Calls (SaveGame host0 '''' ''Title'' False None idle0) =
     [LogError ''Cannot save a game with a blank slot name'',
      Broadcast (PostSaveGame '''' False)]"
  by code_simp

text \<open>
  Claim C6. When a map is about to be loaded, \<^verbatim>\<open>OnPreLoadMap\<close> acts on the levels only if
  the server check passes, the state is \<^verbatim>\<open>RunningIdle\<close> and the world is valid. Then,
  with \<^verbatim>\<open>bSaveLevelStateWhileTraveling\<close>, every level of the world is stored with release
  and blocking; without it, \<^verbatim>\<open>ReleaseLevelData\<close> is called for every level of the world
  and nothing is stored. In every other case no level is stored or released. The state of
  the state machine is never changed.
\<close>

theorem C6_map_transition_stores_or_releases:
  "NewCalls s (OnPreLoadMap h MapName s) =
     (if \<not> ServerCheck h False then []
      else Broadcast (PreTravelToNewMap MapName) #
        (if CurrentState s = RunningIdle \<and> WorldIsValid h
         then (if bSaveLevelStateWhileTraveling s
               then concat (map (StoreLevelCalls True True) (Levels (World h)))
               else map (\<lambda>Level. State_ReleaseLevelData (LevelName Level) True)
                      (Levels (World h)))
         else []))
   \<and> CurrentState (OnPreLoadMap h MapName s) = CurrentState s
   \<and> (ServerCheck h False \<and> CurrentState s = RunningIdle \<and> WorldIsValid h \<longrightarrow>
        (\<forall>Level \<in> set (Levels (World h)).
           if bSaveLevelStateWhileTraveling s
           then State_StoreLevel (LevelName Level) True True
                  \<in> set (NewCalls s (OnPreLoadMap h MapName s))
           else State_ReleaseLevelData (LevelName Level) True
                  \<in> set (NewCalls s (OnPreLoadMap h MapName s))))"
  by (auto simp add: OnPreLoadMap_eq StoreLevelCalls_def)

theorem C6_map_transition_witness:
  "ServerCheck host0 False \<and> CurrentState idle0 = RunningIdle \<and> WorldIsValid host0
   \<and> bSaveLevelStateWhileTraveling idle0
   \<and> NewCalls idle0 (OnPreLoadMap host0 ''Map'' idle0) =
       [Broadcast (PreTravelToNewMap ''Map''), Broadcast (PreLevelStore ''ZoneA''),
        State_StoreLevel ''ZoneA'' True True, Broadcast (PostLevelStore ''ZoneA'' True)]
   \<and> NewCalls idle0 (OnPreLoadMap host0 ''Map''
        (idle0\<lparr>bSaveLevelStateWhileTraveling := False\<rparr>)) =
       [Broadcast (PreTravelToNewMap ''Map''), State_ReleaseLevelData ''ZoneA'' True]"
  using C6_map_transition_stores_or_releases [of idle0 host0 "''Map''"]
    C6_map_transition_stores_or_releases
      [of "idle0\<lparr>bSaveLevelStateWhileTraveling := False\<rparr>" host0 "''Map''"]
  by (simp add: ServerCheck_def host0_def world0_def zoneA_def idle0_def
      StoreLevelCalls_def NewCalls_def)

text \<open>A load that travels to its map meets \<^verbatim>\<open>OnPreLoadMap\<close> in the state
  \<^verbatim>\<open>LoadingGame\<close>: the level of the world is not stored, although the subsystem is set
  to keep level state while travelling.\<close>

theorem C6_loading_counterexample:
  "CurrentState loading1 = LoadingGame \<and> bSaveLevelStateWhileTraveling loading1
   \<and> ServerCheck host0 False \<and> WorldIsValid host0
   \<and> zoneA \<in> set (Levels (World host0))
   \<and> NewCalls loading1 (OnPreLoadMap host0 ''Map'' loading1)
       = [Broadcast (PreTravelToNewMap ''Map'')]"
  by code_simp

text \<open>
  Claim C7. A save request with a screenshot that passes the guards of \<^verbatim>\<open>SaveGame\<close>
  (server check, slot name not empty, state \<^verbatim>\<open>RunningIdle\<close>), on a host that has a game
  instance and a game viewport client, only announces the save and requests the
  screenshot. From then on, whatever notifications and calls of \<open>HostEvent\<close> arrive and
  however many, the state stays \<^verbatim>\<open>SavingGame\<close>, the delegate stays bound and no call of
  the save pipeline is made: nothing but the screenshot completes the save. When the
  screenshot arrives on a host that has a player controller with a local player and its
  viewport client, \<^verbatim>\<open>OnScreenshotCaptured\<close> makes the calls of \<^verbatim>\<open>FinishSaveGame\<close> for the
  slot, title and extra information of the request and leaves the state \<^verbatim>\<open>RunningIdle\<close>.
\<close>

theorem C7_save_waits_for_screenshot:
  assumes "ServerCheck h True" and "SlotName \<noteq> []" and "CurrentState s = RunningIdle"
    and "HasGameInstance h" and "HasGameViewportClient h"
  shows "NewCalls s (SaveGame h SlotName Title True ExtraInfo s) =
           [Broadcast (PreSaveGame SlotName), RequestScreenshot False]
    \<and> (\<forall>evs. CurrentState (HandleEvents evs (SaveGame h SlotName Title True ExtraInfo s))
                 = SavingGame
             \<and> OnScreenshotHandle (HandleEvents evs (SaveGame h SlotName Title True ExtraInfo s))
             \<and> filter IsSavePipelineCall
                   (Calls (HandleEvents evs (SaveGame h SlotName Title True ExtraInfo s)))
                 = filter IsSavePipelineCall (Calls s))
    \<and> (\<forall>evs h' Width Height Colours.
          HasPlayerController h' \<and> HasLocalPlayer h' \<and> HasLocalPlayerViewportClient h' \<longrightarrow>
          CurrentState (OnScreenshotCaptured h' Width Height Colours
             (HandleEvents evs (SaveGame h SlotName Title True ExtraInfo s))) = RunningIdle
          \<and> NewCalls (HandleEvents evs (SaveGame h SlotName Title True ExtraInfo s))
               (OnScreenshotCaptured h' Width Height Colours
                  (HandleEvents evs (SaveGame h SlotName Title True ExtraInfo s)))
              = FinishSaveGameCalls h' SlotName Title ExtraInfo
                  (Some (CompressThumbnail h' Width Height Colours))
                  (HandleEvents evs (SaveGame h SlotName Title True ExtraInfo s)))"
proof -
  let ?s1 = "SaveGame h SlotName Title True ExtraInfo s"
  have s1: "?s1 = s\<lparr>CurrentState := SavingGame, SlotNameInProgress := SlotName,
         TitleInProgress := Title, ExtraInfoInProgress := ExtraInfo, OnScreenshotHandle := True,
         Calls := Calls s @ [Broadcast (PreSaveGame SlotName), RequestScreenshot False]\<rparr>"
    using assms by (rule SaveGame_screenshot_accepted)
  have new: "NewCalls s ?s1 = [Broadcast (PreSaveGame SlotName), RequestScreenshot False]"
    by (simp add: s1)
  have pending1: "PendingSave ?s1 =
      (SavingGame, SlotName, Title, ExtraInfo, True, filter IsSavePipelineCall (Calls s))"
    by (simp add: s1 PendingSave_def)
  have saving: "CurrentState ?s1 = SavingGame"
    by (simp add: s1)
  have pending: "PendingSave (HandleEvents evs ?s1) =
      (SavingGame, SlotName, Title, ExtraInfo, True, filter IsSavePipelineCall (Calls s))" for evs
    using PendingSave_HandleEvents [OF saving, of evs] pending1 by simp
  have waits: "CurrentState (HandleEvents evs ?s1) = SavingGame
      \<and> OnScreenshotHandle (HandleEvents evs ?s1)
      \<and> filter IsSavePipelineCall (Calls (HandleEvents evs ?s1))
          = filter IsSavePipelineCall (Calls s)" for evs
    using pending [of evs] by (simp add: PendingSave_def)
  have fires: "CurrentState (OnScreenshotCaptured h' Width Height Colours (HandleEvents evs ?s1))
        = RunningIdle
      \<and> NewCalls (HandleEvents evs ?s1)
            (OnScreenshotCaptured h' Width Height Colours (HandleEvents evs ?s1))
          = FinishSaveGameCalls h' SlotName Title ExtraInfo
              (Some (CompressThumbnail h' Width Height Colours)) (HandleEvents evs ?s1)"
    if "HasPlayerController h'" and "HasLocalPlayer h'" and "HasLocalPlayerViewportClient h'"
    for evs h' Width Height Colours
    using pending [of evs] that by (simp add: OnScreenshotCaptured_eq PendingSave_def)
  from new waits fires show ?thesis by blast
qed

theorem C7_save_waits_witness:
  "ServerCheck host0 True \<and> ''S1'' \<noteq> [] \<and> CurrentState idle0 = RunningIdle
   \<and> HasGameInstance host0 \<and> HasGameViewportClient host0
   \<and> HasPlayerController host0 \<and> HasLocalPlayer host0 \<and> HasLocalPlayerViewportClient host0
   \<and> CurrentState (HandleEvents quietHours (SaveGame host0 ''S1'' ''First'' True None idle0))
       = SavingGame
   \<and> filter IsSavePipelineCall
         (Calls (HandleEvents quietHours (SaveGame host0 ''S1'' ''First'' True None idle0))) = []
   \<and> CurrentState (OnScreenshotCaptured host0 4 4 []
         (HandleEvents quietHours (SaveGame host0 ''S1'' ''First'' True None idle0))) = RunningIdle"
proof -
  have a: "ServerCheck host0 True" by (simp add: ServerCheck_def host0_def)
  have b: "''S1'' \<noteq> []" by simp
  have c: "CurrentState idle0 = RunningIdle" by (simp add: idle0_def)
  have d: "Calls idle0 = []" by (simp add: idle0_def)
  have e: "HasGameInstance host0" by (simp add: host0_def)
  have f: "HasGameViewportClient host0" by (simp add: host0_def)
  have g: "HasPlayerController host0 \<and> HasLocalPlayer host0 \<and> HasLocalPlayerViewportClient host0"
    by (simp add: host0_def)
  show ?thesis
    using a b c d e f g C7_save_waits_for_screenshot [OF a b c e f, of "''First''" None]
    by simp
qed

text \<open>\<^verbatim>\<open>ForceReset\<close> ends the wait without the screenshot: the state is
  \<^verbatim>\<open>RunningIdle\<close>, the delegate is still bound and nothing has been saved.\<close>

theorem C7_force_reset_counterexample:
  "CurrentState saving1 = SavingGame \<and> OnScreenshotHandle saving1
   \<and> CurrentState (ForceReset saving1) = RunningIdle
   \<and> OnScreenshotHandle (ForceReset saving1)
   \<and> Calls (ForceReset saving1) = [Broadcast (PreSaveGame ''S1''), RequestScreenshot False]"
  by code_simp

text \<open>
  Claim C8. The upgrade task is to skip a slot whose read fails, with a log line, and to
  write an upgraded save back with the archive closed explicitly and its errors checked.
  Here the read of \<^verbatim>\<open>a.sav\<close> fails: it is logged and the task goes on to \<^verbatim>\<open>b.sav\<close>.
  The save of \<^verbatim>\<open>b.sav\<close> is upgraded and written, but the archive written is never
  closed by a call and its error (every written archive has one in this run) is neither
  read nor logged. \<^verbatim>\<open>FinishSaveGame\<close>, on the same host, closes its archive and reports
  the error.
\<close>

theorem C8_upgrade_write_is_not_closed:
  "DoWork diskFullHost upgradeAll =
     [Up_CreateFileReader ''Saved/SaveGames/a.sav'',
      Up_LoadFromArchive (FileReader ''Saved/SaveGames/a.sav'') True,
      Up_Close (FileReader ''Saved/SaveGames/a.sav''),
      Up_LogError ''Error while loading game to check for upgrades: a.sav'',
      Up_CreateFileReader ''Saved/SaveGames/b.sav'',
      Up_LoadFromArchive (FileReader ''Saved/SaveGames/b.sav'') True,
      Up_Close (FileReader ''Saved/SaveGames/b.sav''),
      Up_Execute ''Saved/SaveGames/b.sav'',
      Up_Move ''Saved/SaveGames/b.sav.bak'' ''Saved/SaveGames/b.sav'',
      Up_CreateFileWriter ''Saved/SaveGames/b.sav'',
      Up_SaveToArchive (FileWriter ''Saved/SaveGames/b.sav'')]
   \<and> Calls (SaveGame diskFullHost ''S1'' ''Title'' False None idle0) =
     [Broadcast (PreSaveGame ''S1''), State_StoreWorldGlobals,
      Broadcast (PreLevelStore ''ZoneA''), State_StoreLevel ''ZoneA'' False True,
      Broadcast (PostLevelStore ''ZoneA'' True), State_SetTitle ''Title'',
      State_SetTimestamp, State_SetCustomSaveInfo None,
      CreateFileWriter ''Saved/SaveGames/S1.sav'',
      State_SaveToArchive (FileWriter ''Saved/SaveGames/S1.sav''),
      Archive_Close (FileWriter ''Saved/SaveGames/S1.sav''),
      LogError ''Error while saving game to S1'',
      Broadcast (PostSaveGame ''S1'' False)]"
  by code_simp

text \<open>
  Claim C9. \<^verbatim>\<open>LoadActorData\<close> never changes the state of the state machine, whatever
  \<^verbatim>\<open>bAsGameLoad\<close> is. When the server check passes it restores the given actor, by one
  call of \<^verbatim>\<open>RestoreActor\<close>, and leaves \<^verbatim>\<open>bIsRestoringState\<close> false; nothing else
  changes. When the server check fails it changes nothing, so \<^verbatim>\<open>bIsRestoringState\<close>
  keeps its value.
\<close>

theorem C9_load_actor_data_keeps_state:
  "CurrentState (LoadActorData h Actor bAsGameLoad s) = CurrentState s
   \<and> LoadActorData h Actor bAsGameLoad s =
       (if ServerCheck h False
        then s\<lparr>bIsRestoringState := False,
               Calls := Calls s @ [State_RestoreActor (ActorId Actor)]\<rparr>
        else s)
   \<and> (ServerCheck h False \<longrightarrow>
        \<not> bIsRestoringState (LoadActorData h Actor bAsGameLoad s)
        \<and> NewCalls s (LoadActorData h Actor bAsGameLoad s) = [State_RestoreActor (ActorId Actor)])"
  by (simp add: LoadActorData_def emit_def Let_def)

theorem C9_load_actor_data_witness:
  "ServerCheck host0 False
   \<and> CurrentState (LoadActorData host0 crate True idle0) = RunningIdle
   \<and> \<not> bIsRestoringState (LoadActorData host0 crate True idle0)
   \<and> NewCalls idle0 (LoadActorData host0 crate True idle0) = [State_RestoreActor 7]"
proof -
  have a: "ServerCheck host0 False" by (simp add: ServerCheck_def host0_def)
  have b: "CurrentState idle0 = RunningIdle" by (simp add: idle0_def)
  have c: "ActorId crate = 7" by (simp add: crate_def)
  show ?thesis
    using a b c C9_load_actor_data_keeps_state [of host0 crate True idle0] by simp
qed

text \<open>On a client a call made while a restore is under way leaves the flag set.\<close>

theorem C9_client_counterexample:
  "\<not> ServerCheck clientHost False
   \<and> bIsRestoringState (LoadActorData clientHost crate True (idle0\<lparr>bIsRestoringState := True\<rparr>))"
  by code_simp

text \<open>
  Claim C10. After \<^verbatim>\<open>RemovePersistentGlobalObject\<close> for an object, no unnamed entry is a
  pointer to it and no named entry resolves to it. If the object is alive when it is
  unregistered, no named entry is a pointer to it either, so that no entry of the registry
  refers to it, and no save made afterwards, on whatever host, stores anything for it,
  named or unnamed: neither a \<^verbatim>\<open>SaveGame\<close> request nor \<^verbatim>\<open>FinishSaveGame\<close> itself calls
  \<^verbatim>\<open>StoreGlobalObject\<close> for it.
\<close>

theorem C10_removed_object_is_not_saved:
  "Some obj \<notin> set (GlobalObjects (RemovePersistentGlobalObject h (Some obj) s))
    \<and> (\<forall>e \<in> set (NamedGlobalObjects (RemovePersistentGlobalObject h (Some obj) s)).
          Weak_Get h (snd e) \<noteq> Some obj)
    \<and> (ObjectAlive h obj \<longrightarrow>
          Some obj \<notin> snd ` set (NamedGlobalObjects (RemovePersistentGlobalObject h (Some obj) s))
          \<and> (\<forall>h' SlotName Title ExtraInfo ScreenshotData name.
                State_StoreGlobalObject obj name \<notin>
                  set (NewCalls (RemovePersistentGlobalObject h (Some obj) s)
                         (FinishSaveGame h' SlotName Title ExtraInfo ScreenshotData
                            (RemovePersistentGlobalObject h (Some obj) s))))
          \<and> (\<forall>h' SlotName Title bTakeScreenshot ExtraInfo name.
                State_StoreGlobalObject obj name \<notin>
                  set (NewCalls (RemovePersistentGlobalObject h (Some obj) s)
                         (SaveGame h' SlotName Title bTakeScreenshot ExtraInfo
                            (RemovePersistentGlobalObject h (Some obj) s)))))"
proof -
  let ?s = "RemovePersistentGlobalObject h (Some obj) s"
  have unnamed: "Some obj \<notin> set (GlobalObjects ?s)"
    by (rule Remove_GlobalObjects)
  have named: "\<forall>e \<in> set (NamedGlobalObjects ?s). Weak_Get h (snd e) \<noteq> Some obj"
    using Remove_NamedGlobalObjects by blast
  have named_alive: "Some obj \<notin> snd ` set (NamedGlobalObjects ?s)" if "ObjectAlive h obj"
  proof
    assume "Some obj \<in> snd ` set (NamedGlobalObjects ?s)"
    then obtain e where e: "e \<in> set (NamedGlobalObjects ?s)" and "snd e = Some obj"
      by auto
    with that have "Weak_Get h (snd e) = Some obj"
      by (simp add: Weak_Get_def Weak_IsValid_def)
    with named e show False by blast
  qed
  have not_stored: "State_StoreGlobalObject obj name \<notin> set (GlobalObjectCalls h' ?s)"
    if "ObjectAlive h obj" for h' name
  proof
    assume "State_StoreGlobalObject obj name \<in> set (GlobalObjectCalls h' ?s)"
    then have "Some obj \<in> set (GlobalObjects ?s) \<or> Some obj \<in> snd ` set (NamedGlobalObjects ?s)"
      using StoreGlobalObject_in_GlobalObjectCalls by blast
    with unnamed named_alive that show False by blast
  qed
  have finish: "State_StoreGlobalObject obj name \<notin>
      set (NewCalls ?s (FinishSaveGame h' SlotName Title ExtraInfo ScreenshotData ?s))"
    if "ObjectAlive h obj" for h' SlotName Title ExtraInfo ScreenshotData name
  proof
    assume "State_StoreGlobalObject obj name \<in>
      set (NewCalls ?s (FinishSaveGame h' SlotName Title ExtraInfo ScreenshotData ?s))"
    then have "State_StoreGlobalObject obj name \<in>
      set (FinishSaveGameCalls h' SlotName Title ExtraInfo ScreenshotData ?s)"
      by (simp add: FinishSaveGame_eq)
    then have "State_StoreGlobalObject obj name \<in> set (GlobalObjectCalls h' ?s)"
      by (rule StoreGlobalObject_in_FinishSaveGameCalls)
    with not_stored that show False by blast
  qed
  have request: "State_StoreGlobalObject obj name \<notin>
      set (NewCalls ?s (SaveGame h' SlotName Title bTakeScreenshot ExtraInfo ?s))"
    if "ObjectAlive h obj" for h' SlotName Title bTakeScreenshot ExtraInfo name
  proof
    assume "State_StoreGlobalObject obj name \<in>
      set (NewCalls ?s (SaveGame h' SlotName Title bTakeScreenshot ExtraInfo ?s))"
    then have "State_StoreGlobalObject obj name \<in>
      set (SaveGameCalls h' SlotName Title bTakeScreenshot ExtraInfo ?s)"
      by (simp add: SaveGame_calls)
    then have "State_StoreGlobalObject obj name \<in> set (GlobalObjectCalls h' ?s)"
      by (rule StoreGlobalObject_in_SaveGameCalls)
    with not_stored that show False by blast
  qed
  from unnamed named named_alive finish request show ?thesis by blast
qed

theorem C10_removed_object_witness:
  "ObjectAlive host0 3
   \<and> GlobalObjects registered1 = [Some 5, Some 3]
   \<and> NamedGlobalObjects registered1 = [(''Player'', Some 3)]
   \<and> Some 3 \<notin> set (GlobalObjects (RemovePersistentGlobalObject host0 (Some 3) registered1))
   \<and> Some 3 \<notin> snd ` set (NamedGlobalObjects (RemovePersistentGlobalObject host0 (Some 3) registered1))
   \<and> State_StoreGlobalObject 3 None \<notin>
          set (NewCalls (RemovePersistentGlobalObject host0 (Some 3) registered1)
                 (SaveGame host0 ''S1'' ''T'' False None
                    (RemovePersistentGlobalObject host0 (Some 3) registered1)))
   \<and> State_StoreGlobalObject 3 (Some ''Player'') \<notin>
          set (NewCalls (RemovePersistentGlobalObject host0 (Some 3) registered1)
                 (SaveGame host0 ''S1'' ''T'' False None
                    (RemovePersistentGlobalObject host0 (Some 3) registered1)))"
proof -
  have alive: "ObjectAlive host0 3" by (simp add: host0_def)
  have reg: "GlobalObjects registered1 = [Some 5, Some 3]
      \<and> NamedGlobalObjects registered1 = [(''Player'', Some 3)]"
    by code_simp
  show ?thesis
    using alive reg C10_removed_object_is_not_saved [of 3 host0 registered1]
    by blast
qed

text \<open>Object 3 is registered unnamed and under the name Player, and is then destroyed.
  Unregistering it removes the unnamed entry, but the named entry made from it stays:
  line 712 compares what the weak pointer resolves to, which is null, with the object.\<close>

theorem C10_destroyed_object_counterexample:
  "\<not> ObjectAlive deadHost 3
   \<and> GlobalObjects registered1 = [Some 5, Some 3]
   \<and> NamedGlobalObjects registered1 = [(''Player'', Some 3)]
   \<and> GlobalObjects (RemovePersistentGlobalObject deadHost (Some 3) registered1) = [Some 5]
   \<and> NamedGlobalObjects (RemovePersistentGlobalObject deadHost (Some 3) registered1)
       = [(''Player'', Some 3)]"
  by code_simp

end
